theory Spec2Isabelle
  imports Complex_Main "HOL-Library.Sublist"
begin

section \<open>The marketing-strategy workflow of \<^verbatim>\<open>autogen_marketing_demo.py\<close>\<close>

text \<open>
  The script builds one \<^verbatim>\<open>MarketingStrategyWorkflow\<close> object and runs five phases in
  sequence. Each phase prints a header, formats two prompts, sends one chat-completion request
  and stores the answer in the dictionary \<^verbatim>\<open>self.outputs\<close>.

  Conventions of the embedding:
  \<^item> a Python \<^verbatim>\<open>str\<close> is a HOL \<open>string\<close> holding the UTF-8 text, so the two dashes of
    the source that are not ASCII are written as their three bytes;
  \<^item> the float literals \<^verbatim>\<open>0.7\<close> and \<^verbatim>\<open>0.5\<close> are only passed on, never computed with;
    they are kept as the exact decimals \<open>0.7\<close> and \<open>0.5\<close> of type \<open>rat\<close>;
  \<^item> an exception is a value of type \<open>error\<close>; a method that may raise returns the
    error (if any) together with the state reached when it was raised;
  \<^item> the generation service behind \<^verbatim>\<open>self.client\<close> is a parameter: a function from its
    own state and a request to an answer (or an error) and its next state;
  \<^item> \<^verbatim>\<open>Config\<close> and the clock are not part of the file; they are parameters too.
\<close>

subsection \<open>Values, errors, dictionaries\<close>

datatype error =
    SystemExit int
  | KeyError string
  | IndexError
  | GenerationServiceError string

text \<open>\<^verbatim>\<open>message.content\<close> of an answer is a \<^verbatim>\<open>str\<close> or \<^verbatim>\<open>None\<close>.\<close>

type_synonym pyval = "string option"

text \<open>What an f-string hole and \<^verbatim>\<open>print\<close> make of such a value.\<close>

definition py_str :: "pyval \<Rightarrow> string" where
  "py_str v = (case v of None \<Rightarrow> ''None'' | Some s \<Rightarrow> s)"

text \<open>
  A \<^verbatim>\<open>dict\<close> keeps its keys in insertion order; assigning to a key that is present
  replaces the value where it stands, assigning to a new key appends.
\<close>

type_synonym dict = "(string \<times> pyval) list"

fun setitem :: "dict \<Rightarrow> string \<Rightarrow> pyval \<Rightarrow> dict" where
  "setitem [] k v = [(k, v)]"
| "setitem ((k', v') # d) k v =
     (if k' = k then (k', v) # d else (k', v') # setitem d k v)"

definition getitem :: "dict \<Rightarrow> string \<Rightarrow> error + pyval" where
  "getitem d k = (case map_of d k of None \<Rightarrow> Inl (KeyError k) | Some v \<Rightarrow> Inr v)"

definition keys :: "dict \<Rightarrow> string list" where
  "keys d = map fst d"

definition items :: "dict \<Rightarrow> (string \<times> pyval) list" where
  "items d = d"

text \<open>\<^verbatim>\<open>str.upper\<close> on the ASCII letters, which is all the keys of the dictionary contain.\<close>

definition upper_char :: "char \<Rightarrow> char" where
  "upper_char c =
     (let n = (of_char c :: nat)
      in if of_char CHR ''a'' \<le> n \<and> n \<le> of_char CHR ''z'' then char_of (n - 32) else c)"

definition upper :: "string \<Rightarrow> string" where
  "upper s = map upper_char s"

subsection \<open>Requests, answers, the service, the process\<close>

record message =
  role :: string
  content :: string

record request =
  req_model :: string
  temperature :: rat
  max_tokens :: nat
  messages :: "message list"

text \<open>An answer carries the list \<^verbatim>\<open>choices\<close>; of each choice only \<^verbatim>\<open>message.content\<close> is read.\<close>

record response =
  choices :: "pyval list"

type_synonym 's service = "'s \<Rightarrow> request \<Rightarrow> (error + response) \<times> 's"

text \<open>
  The world outside the object: the state of the service, the requests it has received so
  far, the lines written by \<^verbatim>\<open>print\<close> (one entry per call) and the text that
  \<^verbatim>\<open>datetime.now()\<close> formats to.
\<close>

record 's world =
  service :: 's
  sent :: "request list"
  stdout :: "string list"
  now :: string

record config =
  validate_setup :: bool
  API_KEY :: string
  API_BASE :: string
  OPENAI_MODEL :: string

text \<open>The object: \<^verbatim>\<open>self.client\<close> keeps the two settings it was built from.\<close>

record workflow =
  client :: "string \<times> string"
  outputs :: dict
  model :: string
  product_name :: string

definition print :: "string \<Rightarrow> 's world \<Rightarrow> 's world" where
  "print s w = w\<lparr>stdout := stdout w @ [s]\<rparr>"

text \<open>\<^verbatim>\<open>self.client.chat.completions.create(model=, temperature=, max_tokens=, messages=)\<close>\<close>

definition create ::
  "'s service \<Rightarrow> string \<Rightarrow> rat \<Rightarrow> nat \<Rightarrow> message list \<Rightarrow> 's world
     \<Rightarrow> (error + response) \<times> 's world" where
  "create svc m t k msgs w =
     (let req = \<lparr>req_model = m, temperature = t, max_tokens = k, messages = msgs\<rparr>
      in case svc (service w) req of
           (r, s') \<Rightarrow> (r, w\<lparr>service := s', sent := sent w @ [req]\<rparr>))"

text \<open>\<^verbatim>\<open>response.choices[0].message.content\<close>\<close>

definition first_content :: "response \<Rightarrow> error + pyval" where
  "first_content r = (case choices r of [] \<Rightarrow> Inl IndexError | c # _ \<Rightarrow> Inr c)"

definition rule80 :: string where
  "rule80 = replicate 80 CHR ''=''"

subsection \<open>The prompts\<close>

definition market_research_system_prompt :: "string \<Rightarrow> string" where
  "market_research_system_prompt pn =
     ''\<newline>You are a senior market research analyst.\<newline>Analyze the wearable technology market for the product: ''
     @ pn @
     ''.\<newline>\<newline>Provide:\<newline>- Top 3 competitors\<newline>- Their positioning\<newline>- Pricing\<newline>- Key features\<newline>- Market trends\<newline>Limit to 150''
     @ [CHR 0xE2, CHR 0x80, CHR 0x93] @ ''200 words.\<newline>''"

definition market_research_user_prompt :: string where
  "market_research_user_prompt = ''Provide competitor analysis.''"

definition customer_analysis_system_prompt :: string where
  "customer_analysis_system_prompt =
     ''\<newline>You are a consumer behavior expert.\<newline>Based on the market research, identify:\<newline>\<newline>- Target customer segments\<newline>- User pain points\<newline>- Motivations\<newline>- Purchase triggers\<newline>- Unmet needs\<newline>\<newline>Limit to 150 words.\<newline>''"

definition customer_analysis_user_prompt :: "pyval \<Rightarrow> string" where
  "customer_analysis_user_prompt mr =
     ''Here is the market research:\<newline>'' @ py_str mr @ ''\<newline>\<newline>Analyze customers.''"

definition strategy_system_prompt :: "string \<Rightarrow> string" where
  "strategy_system_prompt pn =
     ''\<newline>You are a marketing strategist.\<newline>Create a marketing strategy for: ''
     @ pn @
     ''\<newline>\<newline>Include:\<newline>- Positioning statement\<newline>- Value proposition\<newline>- Key messaging pillars\<newline>- Channels to target\<newline>- Pricing strategy\<newline>- Brand voice direction\<newline>\<newline>Limit to 200 words.\<newline>''"

definition strategy_user_prompt :: "pyval \<Rightarrow> pyval \<Rightarrow> string" where
  "strategy_user_prompt mr ca =
     ''\<newline>Market Research:\<newline>'' @ py_str mr @
     ''\<newline>\<newline>Customer Insights:\<newline>'' @ py_str ca @ ''\<newline>''"

definition campaigns_system_prompt :: string where
  "campaigns_system_prompt =
     ''\<newline>You are a creative campaign director.\<newline>Design 3 marketing campaigns:\<newline>\<newline>1. Digital campaign\<newline>2. Influencer campaign\<newline>3. Content/SEO campaign\<newline>\<newline>Include:\<newline>- Goal\<newline>- Target channels\<newline>- Creative concept\<newline>- KPIs\<newline>Keep each campaign short and crisp.\<newline>''"

definition campaigns_user_prompt :: "pyval \<Rightarrow> string" where
  "campaigns_user_prompt st =
     ''\<newline>Based on the marketing strategy:\<newline>\<newline>'' @ py_str st @
     ''\<newline>\<newline>Generate the 3 campaigns.\<newline>''"

definition quality_system_prompt :: string where
  "quality_system_prompt =
     ''\<newline>You are a quality editor. Improve clarity, flow, and formatting.\<newline>Combine all sections into a polished executive summary.\<newline>Max 250 words.\<newline>''"

definition quality_user_prompt :: "pyval \<Rightarrow> pyval \<Rightarrow> pyval \<Rightarrow> pyval \<Rightarrow> string" where
  "quality_user_prompt mr ca st cp =
     ''\<newline>Market Research:\<newline>'' @ py_str mr @
     ''\<newline>\<newline>Customer Insights:\<newline>'' @ py_str ca @
     ''\<newline>\<newline>Marketing Strategy:\<newline>'' @ py_str st @
     ''\<newline>\<newline>Campaigns:\<newline>'' @ py_str cp @ ''\<newline>''"

subsection \<open>The constructor\<close>

text \<open>
  \<^verbatim>\<open>__init__(self, product_name="SmartHealth Fitness Band")\<close>: the argument is \<open>None\<close>
  when the caller leaves it out. \<^verbatim>\<open>exit(1)\<close> raises \<^verbatim>\<open>SystemExit(1)\<close>.
\<close>

definition init ::
  "config \<Rightarrow> string option \<Rightarrow> 's world \<Rightarrow> (error + workflow) \<times> 's world" where
  "init Config arg w =
     (let pn = (case arg of None \<Rightarrow> ''SmartHealth Fitness Band'' | Some p \<Rightarrow> p)
      in if \<not> validate_setup Config
         then (Inl (SystemExit 1), print ''ERROR: Configuration validation failed!'' w)
         else (Inr \<lparr>client = (API_KEY Config, API_BASE Config),
                    outputs = [],
                    model = OPENAI_MODEL Config,
                    product_name = pn\<rparr>, w))"

subsection \<open>The five phases\<close>

text \<open>
  Each phase returns the error it raised (\<open>None\<close> when it returned normally), the object
  and the world as they were at that moment.
\<close>

definition phase_market_research ::
  "'s service \<Rightarrow> workflow \<Rightarrow> 's world \<Rightarrow> error option \<times> workflow \<times> 's world" where
  "phase_market_research svc self w0 =
     (let w1 = print (CHR ''\<newline>'' # rule80) w0;
          w2 = print ''PHASE 1: MARKET RESEARCH'' w1;
          w3 = print rule80 w2;
          system_prompt = market_research_system_prompt (product_name self)
      in case create svc (model self) 0.7 500
                [\<lparr>role = ''system'', content = system_prompt\<rparr>,
                 \<lparr>role = ''user'', content = market_research_user_prompt\<rparr>] w3 of
           (Inl e, w4) \<Rightarrow> (Some e, self, w4)
         | (Inr response, w4) \<Rightarrow>
             (case first_content response of
                Inl e \<Rightarrow> (Some e, self, w4)
              | Inr c \<Rightarrow>
                  (let self' = self\<lparr>outputs := setitem (outputs self) ''market_research'' c\<rparr>
                  in case getitem (outputs self') ''market_research'' of
                       Inl e \<Rightarrow> (Some e, self', w4)
                     | Inr v \<Rightarrow> (None, self', print (py_str v) w4))))"

definition phase_customer_analysis ::
  "'s service \<Rightarrow> workflow \<Rightarrow> 's world \<Rightarrow> error option \<times> workflow \<times> 's world" where
  "phase_customer_analysis svc self w0 =
     (let w1 = print (CHR ''\<newline>'' # rule80) w0;
          w2 = print ''PHASE 2: CUSTOMER INSIGHTS'' w1;
          w3 = print rule80 w2;
          system_prompt = customer_analysis_system_prompt
      in case getitem (outputs self) ''market_research'' of
           Inl e \<Rightarrow> (Some e, self, w3)
         | Inr mr \<Rightarrow>
      (let user_prompt = customer_analysis_user_prompt mr
      in case create svc (model self) 0.7 400
                [\<lparr>role = ''system'', content = system_prompt\<rparr>,
                 \<lparr>role = ''user'', content = user_prompt\<rparr>] w3 of
           (Inl e, w4) \<Rightarrow> (Some e, self, w4)
         | (Inr response, w4) \<Rightarrow>
             (case first_content response of
                Inl e \<Rightarrow> (Some e, self, w4)
              | Inr c \<Rightarrow>
                  (let self' = self\<lparr>outputs := setitem (outputs self) ''customer_analysis'' c\<rparr>
                  in case getitem (outputs self') ''customer_analysis'' of
                       Inl e \<Rightarrow> (Some e, self', w4)
                     | Inr v \<Rightarrow> (None, self', print (py_str v) w4)))))"

definition phase_strategy ::
  "'s service \<Rightarrow> workflow \<Rightarrow> 's world \<Rightarrow> error option \<times> workflow \<times> 's world" where
  "phase_strategy svc self w0 =
     (let w1 = print (CHR ''\<newline>'' # rule80) w0;
          w2 = print ''PHASE 3: MARKETING STRATEGY'' w1;
          w3 = print rule80 w2;
          system_prompt = strategy_system_prompt (product_name self)
      in case getitem (outputs self) ''market_research'' of
           Inl e \<Rightarrow> (Some e, self, w3)
         | Inr mr \<Rightarrow>
      (case getitem (outputs self) ''customer_analysis'' of
           Inl e \<Rightarrow> (Some e, self, w3)
         | Inr ca \<Rightarrow>
      (let user_prompt = strategy_user_prompt mr ca
      in case create svc (model self) 0.7 500
                [\<lparr>role = ''system'', content = system_prompt\<rparr>,
                 \<lparr>role = ''user'', content = user_prompt\<rparr>] w3 of
           (Inl e, w4) \<Rightarrow> (Some e, self, w4)
         | (Inr response, w4) \<Rightarrow>
             (case first_content response of
                Inl e \<Rightarrow> (Some e, self, w4)
              | Inr c \<Rightarrow>
                  (let self' = self\<lparr>outputs := setitem (outputs self) ''strategy'' c\<rparr>
                  in case getitem (outputs self') ''strategy'' of
                       Inl e \<Rightarrow> (Some e, self', w4)
                     | Inr v \<Rightarrow> (None, self', print (py_str v) w4))))))"

definition phase_campaigns ::
  "'s service \<Rightarrow> workflow \<Rightarrow> 's world \<Rightarrow> error option \<times> workflow \<times> 's world" where
  "phase_campaigns svc self w0 =
     (let w1 = print (CHR ''\<newline>'' # rule80) w0;
          w2 = print ''PHASE 4: CAMPAIGN DESIGN'' w1;
          w3 = print rule80 w2;
          system_prompt = campaigns_system_prompt
      in case getitem (outputs self) ''strategy'' of
           Inl e \<Rightarrow> (Some e, self, w3)
         | Inr st \<Rightarrow>
      (let user_prompt = campaigns_user_prompt st
      in case create svc (model self) 0.7 500
                [\<lparr>role = ''system'', content = system_prompt\<rparr>,
                 \<lparr>role = ''user'', content = user_prompt\<rparr>] w3 of
           (Inl e, w4) \<Rightarrow> (Some e, self, w4)
         | (Inr response, w4) \<Rightarrow>
             (case first_content response of
                Inl e \<Rightarrow> (Some e, self, w4)
              | Inr c \<Rightarrow>
                  (let self' = self\<lparr>outputs := setitem (outputs self) ''campaigns'' c\<rparr>
                  in case getitem (outputs self') ''campaigns'' of
                       Inl e \<Rightarrow> (Some e, self', w4)
                     | Inr v \<Rightarrow> (None, self', print (py_str v) w4)))))"

definition phase_quality ::
  "'s service \<Rightarrow> workflow \<Rightarrow> 's world \<Rightarrow> error option \<times> workflow \<times> 's world" where
  "phase_quality svc self w0 =
     (let w1 = print (CHR ''\<newline>'' # rule80) w0;
          w2 = print ''PHASE 5: QUALITY REVIEW'' w1;
          w3 = print rule80 w2;
          system_prompt = quality_system_prompt
      in case getitem (outputs self) ''market_research'' of
           Inl e \<Rightarrow> (Some e, self, w3)
         | Inr mr \<Rightarrow>
      (case getitem (outputs self) ''customer_analysis'' of
           Inl e \<Rightarrow> (Some e, self, w3)
         | Inr ca \<Rightarrow>
      (case getitem (outputs self) ''strategy'' of
           Inl e \<Rightarrow> (Some e, self, w3)
         | Inr st \<Rightarrow>
      (case getitem (outputs self) ''campaigns'' of
           Inl e \<Rightarrow> (Some e, self, w3)
         | Inr cp \<Rightarrow>
      (let user_prompt = quality_user_prompt mr ca st cp
      in case create svc (model self) 0.5 500
                [\<lparr>role = ''system'', content = system_prompt\<rparr>,
                 \<lparr>role = ''user'', content = user_prompt\<rparr>] w3 of
           (Inl e, w4) \<Rightarrow> (Some e, self, w4)
         | (Inr response, w4) \<Rightarrow>
             (case first_content response of
                Inl e \<Rightarrow> (Some e, self, w4)
              | Inr c \<Rightarrow>
                  (let self' = self\<lparr>outputs := setitem (outputs self) ''quality'' c\<rparr>
                  in case getitem (outputs self') ''quality'' of
                       Inl e \<Rightarrow> (Some e, self', w4)
                     | Inr v \<Rightarrow> (None, self', print (py_str v) w4))))))))"

subsection \<open>The summary, the run, the script\<close>

text \<open>The loop of \<^verbatim>\<open>print_summary\<close> over \<^verbatim>\<open>self.outputs.items()\<close>.\<close>

fun print_items :: "(string \<times> pyval) list \<Rightarrow> 's world \<Rightarrow> 's world" where
  "print_items [] w = w"
| "print_items ((key, val) # rest) w =
     print_items rest
       (print (py_str val)
          (print (''\<newline>--- '' @ upper key @ '' ---\<newline>'') w))"

definition print_summary :: "workflow \<Rightarrow> 's world \<Rightarrow> 's world" where
  "print_summary self w0 =
     (let w1 = print (CHR ''\<newline>'' # rule80) w0;
          w2 = print (''FINAL SUMMARY '' @ [CHR 0xE2, CHR 0x80, CHR 0x94] @ '' MARKETING STRATEGY'') w1;
          w3 = print rule80 w2
      in print_items (items (outputs self)) w3)"

definition run ::
  "'s service \<Rightarrow> workflow \<Rightarrow> 's world \<Rightarrow> error option \<times> workflow \<times> 's world" where
  "run svc self w0 =
     (let w1 = print (CHR ''\<newline>'' # rule80) w0;
          w2 = print ''AUTOGEN MARKETING STRATEGY WORKFLOW'' w1;
          w3 = print rule80 w2;
          w4 = print (''Product: '' @ product_name self) w3;
          w5 = print (''Model: '' @ model self) w4;
          w6 = print (''Start Time: '' @ now w5 @ ''\<newline>'') w5
      in case phase_market_research svc self w6 of
           (Some e, r) \<Rightarrow> (Some e, r)
         | (None, self1, x1) \<Rightarrow>
      (case phase_customer_analysis svc self1 x1 of
           (Some e, r) \<Rightarrow> (Some e, r)
         | (None, self2, x2) \<Rightarrow>
      (case phase_strategy svc self2 x2 of
           (Some e, r) \<Rightarrow> (Some e, r)
         | (None, self3, x3) \<Rightarrow>
      (case phase_campaigns svc self3 x3 of
           (Some e, r) \<Rightarrow> (Some e, r)
         | (None, self4, x4) \<Rightarrow>
      (case phase_quality svc self4 x4 of
           (Some e, r) \<Rightarrow> (Some e, r)
         | (None, self5, x5) \<Rightarrow> (None, self5, print_summary self5 x5))))))"

text \<open>
  Building the object and running it, as the script does at its end; \<open>workflow_main\<close>
  leaves the argument of the constructor open, \<open>main\<close> is the script's own call.
  The object is \<open>None\<close> when the constructor raised.
\<close>

definition workflow_main ::
  "config \<Rightarrow> 's service \<Rightarrow> string option \<Rightarrow> 's world
     \<Rightarrow> error option \<times> workflow option \<times> 's world" where
  "workflow_main Config svc arg w =
     (case init Config arg w of
        (Inl e, w') \<Rightarrow> (Some e, None, w')
      | (Inr self, w') \<Rightarrow>
          (case run svc self w' of (e, self', w'') \<Rightarrow> (e, Some self', w'')))"

definition main ::
  "config \<Rightarrow> 's service \<Rightarrow> 's world \<Rightarrow> error option \<times> workflow option \<times> 's world" where
  "main Config svc w = workflow_main Config svc (Some ''SmartHealth Fitness Band'') w"

subsection \<open>Auxiliary definitions for the proofs\<close>

text \<open>
  None of the following is part of the program. The definitions name parts of it that the
  statements and proofs below refer to (what the phases share, the lines printed, the
  requests of a run), and fix concrete inputs on which the theorems are exercised.
\<close>

text \<open>The three lines every phase prints first: a blank line and a rule, the title, a rule.\<close>

definition banner :: "string \<Rightarrow> 's world \<Rightarrow> 's world" where
  "banner title w = print rule80 (print title (print (CHR ''\<newline>'' # rule80) w))"

text \<open>The request a phase builds: the keyword arguments of \<^verbatim>\<open>create\<close>, with one system and one user message.\<close>

definition mk_request :: "string \<Rightarrow> rat \<Rightarrow> nat \<Rightarrow> string \<Rightarrow> string \<Rightarrow> request" where
  "mk_request m t k sys usr =
     \<lparr>req_model = m, temperature = t, max_tokens = k,
      messages = [\<lparr>role = ''system'', content = sys\<rparr>, \<lparr>role = ''user'', content = usr\<rparr>]\<rparr>"

text \<open>What the five phases share after their prompts are built: send the request, read
  \<^verbatim>\<open>choices[0].message.content\<close>, store it under the key of the phase, print it. Each phase is
  shown below to be an instance of it.\<close>

definition send_and_store ::
  "'s service \<Rightarrow> string \<Rightarrow> request \<Rightarrow> workflow \<Rightarrow> 's world
     \<Rightarrow> error option \<times> workflow \<times> 's world" where
  "send_and_store svc key req self w =
     (case svc (service w) req of
        (Inl e, s') \<Rightarrow> (Some e, self, w\<lparr>service := s', sent := sent w @ [req]\<rparr>)
      | (Inr resp, s') \<Rightarrow>
          (case choices resp of
             [] \<Rightarrow> (Some IndexError, self, w\<lparr>service := s', sent := sent w @ [req]\<rparr>)
           | c # _ \<Rightarrow>
               (None, self\<lparr>outputs := setitem (outputs self) key c\<rparr>,
                print (py_str c) (w\<lparr>service := s', sent := sent w @ [req]\<rparr>))))"

text \<open>The six lines \<^verbatim>\<open>run\<close> prints before phase 1.\<close>

definition run_banner :: "workflow \<Rightarrow> 's world \<Rightarrow> 's world" where
  "run_banner self w0 =
     (let w1 = print (CHR ''\<newline>'' # rule80) w0;
          w2 = print ''AUTOGEN MARKETING STRATEGY WORKFLOW'' w1;
          w3 = print rule80 w2;
          w4 = print (''Product: '' @ product_name self) w3;
          w5 = print (''Model: '' @ model self) w4
      in print (''Start Time: '' @ now w5 @ ''\<newline>'') w5)"

text \<open>Sequencing of two steps: the second runs only when the first returned normally.\<close>

definition andthen ::
  "error option \<times> workflow \<times> 's world \<Rightarrow> (workflow \<Rightarrow> 's world \<Rightarrow> error option \<times> workflow \<times> 's world)
     \<Rightarrow> error option \<times> workflow \<times> 's world" where
  "andthen r f = (case r of (Some e, x) \<Rightarrow> (Some e, x) | (None, self, w) \<Rightarrow> f self w)"

text \<open>The five requests of a run, given the outputs \<open>o1\<close>, ..., \<open>o4\<close> of the first four phases.\<close>

definition expected_requests :: "workflow \<Rightarrow> pyval \<Rightarrow> pyval \<Rightarrow> pyval \<Rightarrow> pyval \<Rightarrow> request list" where
  "expected_requests self o1 o2 o3 o4 =
     [mk_request (model self) 0.7 500 (market_research_system_prompt (product_name self))
        market_research_user_prompt,
      mk_request (model self) 0.7 400 customer_analysis_system_prompt
        (customer_analysis_user_prompt o1),
      mk_request (model self) 0.7 500 (strategy_system_prompt (product_name self))
        (strategy_user_prompt o1 o2),
      mk_request (model self) 0.7 500 campaigns_system_prompt (campaigns_user_prompt o3),
      mk_request (model self) 0.5 500 quality_system_prompt (quality_user_prompt o1 o2 o3 o4)]"

text \<open>The five entries of the dictionary after a complete run, in phase order.\<close>

definition expected_outputs :: "pyval \<Rightarrow> pyval \<Rightarrow> pyval \<Rightarrow> pyval \<Rightarrow> pyval \<Rightarrow> dict" where
  "expected_outputs o1 o2 o3 o4 o5 =
     [(''market_research'', o1), (''customer_analysis'', o2), (''strategy'', o3),
      (''campaigns'', o4), (''quality'', o5)]"

text \<open>Assigning a list of entries to a dictionary, from left to right.\<close>

definition setitems :: "dict \<Rightarrow> (string \<times> pyval) list \<Rightarrow> dict" where
  "setitems d kvs = foldl (\<lambda>d (k, v). setitem d k v) d kvs"

text \<open>The lines \<^verbatim>\<open>print_summary\<close> prints for a dictionary.\<close>

definition summary_lines :: "dict \<Rightarrow> string list" where
  "summary_lines d =
     [CHR ''\<newline>'' # rule80,
      ''FINAL SUMMARY '' @ [CHR 0xE2, CHR 0x80, CHR 0x94] @ '' MARKETING STRATEGY'',
      rule80] @
     concat (map (\<lambda>(k, v). [''\<newline>--- '' @ upper k @ '' ---\<newline>'', py_str v]) d)"

text \<open>The lines of \<open>banner\<close> and of \<open>run_banner\<close>, as lists.\<close>

definition banner_lines :: "string \<Rightarrow> string list" where
  "banner_lines title = [CHR ''\<newline>'' # rule80, title, rule80]"

definition run_banner_lines :: "workflow \<Rightarrow> string \<Rightarrow> string list" where
  "run_banner_lines self t =
     [CHR ''\<newline>'' # rule80, ''AUTOGEN MARKETING STRATEGY WORKFLOW'', rule80,
      ''Product: '' @ product_name self, ''Model: '' @ model self,
      ''Start Time: '' @ t @ ''\<newline>'']"

text \<open>Concrete inputs on which the theorems below are exercised: a service that works through
  a script of canned answers and errors, whatever the request; a valid and an invalid
  configuration; a world in which nothing has been sent or printed yet.\<close>

fun scripted_service :: "(error + string) list service" where
  "scripted_service [] req = (Inl (GenerationServiceError ''script exhausted''), [])"
| "scripted_service (Inl e # rest) req = (Inl e, rest)"
| "scripted_service (Inr r # rest) req = (Inr \<lparr>choices = [Some r]\<rparr>, rest)"

definition config_ok :: config where
  "config_ok = \<lparr>validate_setup = True, API_KEY = ''sk-test'',
     API_BASE = ''https://api.example.test/v1'', OPENAI_MODEL = ''gpt-4o-mini''\<rparr>"

definition config_bad :: config where
  "config_bad = \<lparr>validate_setup = False, API_KEY = '''',
     API_BASE = '''', OPENAI_MODEL = ''''\<rparr>"

definition world0 :: "'s \<Rightarrow> 's world" where
  "world0 s = \<lparr>service = s, sent = [], stdout = [], now = ''2025-01-01 09:00:00.000000''\<rparr>"

text \<open>The requests sent by a step that started in the world \<open>w\<close> and had the result \<open>r\<close>.\<close>

definition issued :: "'s world \<Rightarrow> error option \<times> workflow \<times> 's world \<Rightarrow> request list" where
  "issued w r = drop (length (sent w)) (sent (snd (snd r)))"

text \<open>The contents of the messages of a request that have a given role.\<close>

definition contents_of :: "string \<Rightarrow> request \<Rightarrow> string list" where
  "contents_of r req = map content (filter (\<lambda>m. role m = r) (messages req))"

text \<open>The object the constructor builds from \<open>config_ok\<close> for the product \<^verbatim>\<open>Widget X\<close>, and a
  script of five answers.\<close>

definition widget :: workflow where
  "widget = \<lparr>client = (''sk-test'', ''https://api.example.test/v1''), outputs = [],
     model = ''gpt-4o-mini'', product_name = ''Widget X''\<rparr>"

definition five_answers :: "(error + string) list" where
  "five_answers = [Inr ''R1'', Inr ''R2'', Inr ''R3'', Inr ''R4'', Inr ''R5'']"

text \<open>
  \<open>adds_one_entry key self r\<close>: the step with result \<open>r\<close>, started on the object \<open>self\<close>,
  either returned normally and left the dictionary of \<open>self\<close> extended at its end by exactly
  one entry, under \<open>key\<close>, which was not a key before; or raised and left it as it was.
\<close>

definition adds_one_entry ::
  "string \<Rightarrow> workflow \<Rightarrow> error option \<times> workflow \<times> 's world \<Rightarrow> bool" where
  "adds_one_entry key self r =
     (let d = outputs self; d' = outputs (fst (snd r))
      in if fst r = None
         then key \<notin> set (keys d) \<and> take (length d) d' = d \<and> keys (drop (length d) d') = [key]
         else d' = d)"

text \<open>What a step leaves behind apart from the world: the error (if any) and the object.\<close>

definition outcome :: "error option \<times> workflow \<times> 's world \<Rightarrow> error option \<times> workflow" where
  "outcome r = (fst r, fst (snd r))"

text \<open>
  A service whose answer depends on the request alone, not on how many calls came before:
  it answers with the first twelve characters of each message, and counts the calls.
\<close>

definition digest_service :: "nat service" where
  "digest_service n req =
     (Inr \<lparr>choices = [Some (concat (map (\<lambda>m. take 12 (content m)) (messages req)))]\<rparr>, Suc n)"

text \<open>The run as a function of the object alone, for a service whose answer to a request is
  given by a function \<open>F\<close>: \<open>store\<close> is what a phase does with the answer, \<open>pbind\<close> sequences
  two steps, \<open>pure_run\<close> chains the five phases.\<close>

definition store :: "error + response \<Rightarrow> string \<Rightarrow> workflow \<Rightarrow> error option \<times> workflow" where
  "store a key self =
     (case a of
        Inl e \<Rightarrow> (Some e, self)
      | Inr resp \<Rightarrow>
          (case choices resp of
             [] \<Rightarrow> (Some IndexError, self)
           | c # _ \<Rightarrow> (None, self\<lparr>outputs := setitem (outputs self) key c\<rparr>)))"

definition pbind ::
  "error option \<times> workflow \<Rightarrow> (workflow \<Rightarrow> error option \<times> workflow) \<Rightarrow> error option \<times> workflow" where
  "pbind r f = (case r of (Some e, s) \<Rightarrow> (Some e, s) | (None, s) \<Rightarrow> f s)"

definition pure_run :: "(request \<Rightarrow> error + response) \<Rightarrow> workflow \<Rightarrow> error option \<times> workflow" where
  "pure_run F self =
     pbind (store (F (mk_request (model self) 0.7 500
                 (market_research_system_prompt (product_name self)) market_research_user_prompt))
              ''market_research'' self) (\<lambda>s.
     pbind (case getitem (outputs s) ''market_research'' of Inl e \<Rightarrow> (Some e, s) | Inr o1 \<Rightarrow>
              store (F (mk_request (model s) 0.7 400 customer_analysis_system_prompt
                 (customer_analysis_user_prompt o1))) ''customer_analysis'' s) (\<lambda>s.
     pbind (case getitem (outputs s) ''market_research'' of Inl e \<Rightarrow> (Some e, s) | Inr o1 \<Rightarrow>
            case getitem (outputs s) ''customer_analysis'' of Inl e \<Rightarrow> (Some e, s) | Inr o2 \<Rightarrow>
              store (F (mk_request (model s) 0.7 500 (strategy_system_prompt (product_name s))
                 (strategy_user_prompt o1 o2))) ''strategy'' s) (\<lambda>s.
     pbind (case getitem (outputs s) ''strategy'' of Inl e \<Rightarrow> (Some e, s) | Inr o3 \<Rightarrow>
              store (F (mk_request (model s) 0.7 500 campaigns_system_prompt
                 (campaigns_user_prompt o3))) ''campaigns'' s) (\<lambda>s.
     pbind (case getitem (outputs s) ''market_research'' of Inl e \<Rightarrow> (Some e, s) | Inr o1 \<Rightarrow>
            case getitem (outputs s) ''customer_analysis'' of Inl e \<Rightarrow> (Some e, s) | Inr o2 \<Rightarrow>
            case getitem (outputs s) ''strategy'' of Inl e \<Rightarrow> (Some e, s) | Inr o3 \<Rightarrow>
            case getitem (outputs s) ''campaigns'' of Inl e \<Rightarrow> (Some e, s) | Inr o4 \<Rightarrow>
              store (F (mk_request (model s) 0.5 500 quality_system_prompt
                 (quality_user_prompt o1 o2 o3 o4))) ''quality'' s) (\<lambda>s. (None, s))))))"

section \<open>Properties\<close>

lemma getitem_setitem_same: "getitem (setitem d k v) k = Inr v"
  by (induction d) (auto simp: getitem_def)

lemma getitem_setitem_other: "k' \<noteq> k \<Longrightarrow> getitem (setitem d k v) k' = getitem d k'"
  by (induction d) (auto simp: getitem_def)

lemma setitem_fresh: "k \<notin> set (keys d) \<Longrightarrow> setitem d k v = d @ [(k, v)]"
  by (induction d) (auto simp: keys_def)

lemma setitem_same_value: "getitem d k = Inr v \<Longrightarrow> setitem d k v = d"
  by (induction d) (auto simp: getitem_def split: option.splits if_splits)

lemma phase_market_research_eq:
  "phase_market_research svc self w =
     send_and_store svc ''market_research''
       (mk_request (model self) 0.7 500 (market_research_system_prompt (product_name self))
          market_research_user_prompt)
       self (banner ''PHASE 1: MARKET RESEARCH'' w)"
  by (simp add: phase_market_research_def send_and_store_def create_def mk_request_def
      banner_def first_content_def getitem_setitem_same Let_def
      split: prod.splits sum.splits list.splits)

lemma phase_customer_analysis_eq:
  "phase_customer_analysis svc self w =
     (case getitem (outputs self) ''market_research'' of
        Inl e \<Rightarrow> (Some e, self, banner ''PHASE 2: CUSTOMER INSIGHTS'' w)
      | Inr mr \<Rightarrow>
          send_and_store svc ''customer_analysis''
            (mk_request (model self) 0.7 400 customer_analysis_system_prompt
               (customer_analysis_user_prompt mr))
            self (banner ''PHASE 2: CUSTOMER INSIGHTS'' w))"
  by (simp add: phase_customer_analysis_def send_and_store_def create_def mk_request_def
      banner_def first_content_def getitem_setitem_same Let_def
      split: prod.splits sum.splits list.splits)

lemma phase_strategy_eq:
  "phase_strategy svc self w =
     (case getitem (outputs self) ''market_research'' of
        Inl e \<Rightarrow> (Some e, self, banner ''PHASE 3: MARKETING STRATEGY'' w)
      | Inr mr \<Rightarrow>
     (case getitem (outputs self) ''customer_analysis'' of
        Inl e \<Rightarrow> (Some e, self, banner ''PHASE 3: MARKETING STRATEGY'' w)
      | Inr ca \<Rightarrow>
          send_and_store svc ''strategy''
            (mk_request (model self) 0.7 500 (strategy_system_prompt (product_name self))
               (strategy_user_prompt mr ca))
            self (banner ''PHASE 3: MARKETING STRATEGY'' w)))"
  by (simp add: phase_strategy_def send_and_store_def create_def mk_request_def
      banner_def first_content_def getitem_setitem_same Let_def
      split: prod.splits sum.splits list.splits)

lemma phase_campaigns_eq:
  "phase_campaigns svc self w =
     (case getitem (outputs self) ''strategy'' of
        Inl e \<Rightarrow> (Some e, self, banner ''PHASE 4: CAMPAIGN DESIGN'' w)
      | Inr st \<Rightarrow>
          send_and_store svc ''campaigns''
            (mk_request (model self) 0.7 500 campaigns_system_prompt
               (campaigns_user_prompt st))
            self (banner ''PHASE 4: CAMPAIGN DESIGN'' w))"
  by (simp add: phase_campaigns_def send_and_store_def create_def mk_request_def
      banner_def first_content_def getitem_setitem_same Let_def
      split: prod.splits sum.splits list.splits)

lemma phase_quality_eq:
  "phase_quality svc self w =
     (case getitem (outputs self) ''market_research'' of
        Inl e \<Rightarrow> (Some e, self, banner ''PHASE 5: QUALITY REVIEW'' w)
      | Inr mr \<Rightarrow>
     (case getitem (outputs self) ''customer_analysis'' of
        Inl e \<Rightarrow> (Some e, self, banner ''PHASE 5: QUALITY REVIEW'' w)
      | Inr ca \<Rightarrow>
     (case getitem (outputs self) ''strategy'' of
        Inl e \<Rightarrow> (Some e, self, banner ''PHASE 5: QUALITY REVIEW'' w)
      | Inr st \<Rightarrow>
     (case getitem (outputs self) ''campaigns'' of
        Inl e \<Rightarrow> (Some e, self, banner ''PHASE 5: QUALITY REVIEW'' w)
      | Inr cp \<Rightarrow>
          send_and_store svc ''quality''
            (mk_request (model self) 0.5 500 quality_system_prompt
               (quality_user_prompt mr ca st cp))
            self (banner ''PHASE 5: QUALITY REVIEW'' w)))))"
  by (simp add: phase_quality_def send_and_store_def create_def mk_request_def
      banner_def first_content_def getitem_setitem_same Let_def
      split: prod.splits sum.splits list.splits)

lemma andthen_simps [simp]:
  "andthen (Some e, x) f = (Some e, x)"
  "andthen (None, self, w) f = f self w"
  by (simp_all add: andthen_def)

lemma run_andthen:
  "run svc self w =
     andthen (phase_market_research svc self (run_banner self w)) (\<lambda>s1 x1.
     andthen (phase_customer_analysis svc s1 x1) (\<lambda>s2 x2.
     andthen (phase_strategy svc s2 x2) (\<lambda>s3 x3.
     andthen (phase_campaigns svc s3 x3) (\<lambda>s4 x4.
     andthen (phase_quality svc s4 x4) (\<lambda>s5 x5. (None, s5, print_summary s5 x5))))))"
  by (simp add: run_def run_banner_def andthen_def Let_def split: prod.splits option.splits)

lemma sent_print [simp]: "sent (print s w) = sent w"
  and service_print [simp]: "service (print s w) = service w"
  and now_print [simp]: "now (print s w) = now w"
  and stdout_print [simp]: "stdout (print s w) = stdout w @ [s]"
  by (simp_all add: print_def)

lemma banner_frame [simp]:
  "sent (banner t w) = sent w" "service (banner t w) = service w"
  by (simp_all add: banner_def)

lemma run_banner_frame [simp]:
  "sent (run_banner self w) = sent w" "service (run_banner self w) = service w"
  by (simp_all add: run_banner_def Let_def)

lemma print_items_frame [simp]:
  "sent (print_items kvs w) = sent w" "service (print_items kvs w) = service w"
  by (induction kvs arbitrary: w) auto

lemma print_summary_frame [simp]:
  "sent (print_summary self w) = sent w" "service (print_summary self w) = service w"
  by (simp_all add: print_summary_def Let_def)

lemma send_and_store_result:
  assumes "send_and_store svc key req self w = (e, self', w')"
  shows "sent w' = sent w @ [req] \<and>
         ((\<exists>x. e = Some x) \<and> self' = self \<or>
          e = None \<and> (\<exists>c. self' = self\<lparr>outputs := setitem (outputs self) key c\<rparr>))"
  using assms
  by (auto simp: send_and_store_def split: prod.splits sum.splits list.splits)

lemmas gs = getitem_setitem_same getitem_setitem_other

lemma phase_market_research_result:
  assumes "phase_market_research svc self w = (e, self', w')"
  shows "sent w' = sent w @ [mk_request (model self) 0.7 500
            (market_research_system_prompt (product_name self)) market_research_user_prompt] \<and>
         ((\<exists>x. e = Some x) \<and> self' = self \<or>
          e = None \<and> (\<exists>c. self' = self\<lparr>outputs := setitem (outputs self) ''market_research'' c\<rparr>))"
  using send_and_store_result[OF assms[unfolded phase_market_research_eq]] by simp

lemma phase_customer_analysis_result:
  assumes "getitem (outputs self) ''market_research'' = Inr o1"
    and "phase_customer_analysis svc self w = (e, self', w')"
  shows "sent w' = sent w @ [mk_request (model self) 0.7 400
            customer_analysis_system_prompt (customer_analysis_user_prompt o1)] \<and>
         ((\<exists>x. e = Some x) \<and> self' = self \<or>
          e = None \<and> (\<exists>c. self' = self\<lparr>outputs := setitem (outputs self) ''customer_analysis'' c\<rparr>))"
proof -
  from assms have "send_and_store svc ''customer_analysis''
      (mk_request (model self) 0.7 400 customer_analysis_system_prompt
         (customer_analysis_user_prompt o1))
      self (banner ''PHASE 2: CUSTOMER INSIGHTS'' w) = (e, self', w')"
    by (simp add: phase_customer_analysis_eq)
  from send_and_store_result[OF this] show ?thesis by simp
qed

lemma phase_strategy_result:
  assumes "getitem (outputs self) ''market_research'' = Inr o1"
    and "getitem (outputs self) ''customer_analysis'' = Inr o2"
    and "phase_strategy svc self w = (e, self', w')"
  shows "sent w' = sent w @ [mk_request (model self) 0.7 500
            (strategy_system_prompt (product_name self)) (strategy_user_prompt o1 o2)] \<and>
         ((\<exists>x. e = Some x) \<and> self' = self \<or>
          e = None \<and> (\<exists>c. self' = self\<lparr>outputs := setitem (outputs self) ''strategy'' c\<rparr>))"
proof -
  from assms have "send_and_store svc ''strategy''
      (mk_request (model self) 0.7 500 (strategy_system_prompt (product_name self))
         (strategy_user_prompt o1 o2))
      self (banner ''PHASE 3: MARKETING STRATEGY'' w) = (e, self', w')"
    by (simp add: phase_strategy_eq)
  from send_and_store_result[OF this] show ?thesis by simp
qed

lemma phase_campaigns_result:
  assumes "getitem (outputs self) ''strategy'' = Inr o3"
    and "phase_campaigns svc self w = (e, self', w')"
  shows "sent w' = sent w @ [mk_request (model self) 0.7 500
            campaigns_system_prompt (campaigns_user_prompt o3)] \<and>
         ((\<exists>x. e = Some x) \<and> self' = self \<or>
          e = None \<and> (\<exists>c. self' = self\<lparr>outputs := setitem (outputs self) ''campaigns'' c\<rparr>))"
proof -
  from assms have "send_and_store svc ''campaigns''
      (mk_request (model self) 0.7 500 campaigns_system_prompt (campaigns_user_prompt o3))
      self (banner ''PHASE 4: CAMPAIGN DESIGN'' w) = (e, self', w')"
    by (simp add: phase_campaigns_eq)
  from send_and_store_result[OF this] show ?thesis by simp
qed

lemma phase_quality_result:
  assumes "getitem (outputs self) ''market_research'' = Inr o1"
    and "getitem (outputs self) ''customer_analysis'' = Inr o2"
    and "getitem (outputs self) ''strategy'' = Inr o3"
    and "getitem (outputs self) ''campaigns'' = Inr o4"
    and "phase_quality svc self w = (e, self', w')"
  shows "sent w' = sent w @ [mk_request (model self) 0.5 500
            quality_system_prompt (quality_user_prompt o1 o2 o3 o4)] \<and>
         ((\<exists>x. e = Some x) \<and> self' = self \<or>
          e = None \<and> (\<exists>c. self' = self\<lparr>outputs := setitem (outputs self) ''quality'' c\<rparr>))"
proof -
  from assms have "send_and_store svc ''quality''
      (mk_request (model self) 0.5 500 quality_system_prompt (quality_user_prompt o1 o2 o3 o4))
      self (banner ''PHASE 5: QUALITY REVIEW'' w) = (e, self', w')"
    by (simp add: phase_quality_eq)
  from send_and_store_result[OF this] show ?thesis by simp
qed

lemma exI7: "P a b c d e f g \<Longrightarrow> \<exists>a b c d e f g. P a b c d e f g"
  by blast

lemma run_trace:
  "\<exists>n m o1 o2 o3 o4 o5.
     1 \<le> n \<and> n \<le> 5 \<and> m \<le> n \<and> n \<le> Suc m \<and>
     (fst (run svc self w) = None \<longleftrightarrow> m = 5) \<and>
     fst (snd (run svc self w)) =
       self\<lparr>outputs := setitems (outputs self) (take m (expected_outputs o1 o2 o3 o4 o5))\<rparr> \<and>
     sent (snd (snd (run svc self w))) = sent w @ take n (expected_requests self o1 o2 o3 o4)"
  (is "\<exists>n m o1 o2 o3 o4 o5. ?P n m o1 o2 o3 o4 o5")
proof -
  let ?d = "outputs self"
  obtain e1 s1 w1 where p1:
    "phase_market_research svc self (run_banner self w) = (e1, s1, w1)"
    using prod_cases3 by blast
  have t1: "sent w1 = sent w @ take 1 (expected_requests self None None None None)"
    and c1: "(\<exists>x. e1 = Some x) \<and> s1 = self \<or>
         e1 = None \<and> (\<exists>c. s1 = self\<lparr>outputs := setitem ?d ''market_research'' c\<rparr>)"
    using phase_market_research_result[OF p1]
    by (simp_all add: expected_requests_def)
  show ?thesis
  proof (cases e1)
    case (Some x)
    then have "run svc self w = (Some x, self, w1)"
      using p1 c1 by (simp add: run_andthen)
    then have "?P 1 0 None None None None None"
      using t1 by (simp add: setitems_def)
    then show ?thesis by (rule exI7[where P = ?P])
  next
    case None
    then obtain o1 where s1: "s1 = self\<lparr>outputs := setitem ?d ''market_research'' o1\<rparr>"
      using c1 by auto
    obtain e2 s2 w2 where p2: "phase_customer_analysis svc s1 w1 = (e2, s2, w2)"
      using prod_cases3 by blast
    have r2: "run svc self w = andthen (e2, s2, w2) (\<lambda>s2 x2.
        andthen (phase_strategy svc s2 x2) (\<lambda>s3 x3.
        andthen (phase_campaigns svc s3 x3) (\<lambda>s4 x4.
        andthen (phase_quality svc s4 x4) (\<lambda>s5 x5. (None, s5, print_summary s5 x5)))))"
      using p1 p2 None by (simp add: run_andthen)
    have t2: "sent w2 = sent w @ take 2 (expected_requests self o1 None None None)"
      and c2: "(\<exists>x. e2 = Some x) \<and> s2 = s1 \<or>
         e2 = None \<and> (\<exists>c. s2 = s1\<lparr>outputs := setitem (outputs s1) ''customer_analysis'' c\<rparr>)"
      using phase_customer_analysis_result[OF _ p2, of o1] t1
      by (simp_all add: expected_requests_def s1 gs)
    show ?thesis
    proof (cases e2)
      case (Some x)
      then have "?P 2 1 o1 None None None None"
        using r2 c2 t2 s1 by (simp add: setitems_def expected_outputs_def expected_requests_def)
      then show ?thesis by (rule exI7[where P = ?P])
    next
      case None
      then obtain o2 where s2: "s2 = self\<lparr>outputs :=
          setitem (setitem ?d ''market_research'' o1) ''customer_analysis'' o2\<rparr>"
        using c2 s1 by auto
      obtain e3 s3 w3 where p3: "phase_strategy svc s2 w2 = (e3, s3, w3)"
        using prod_cases3 by blast
      have r3: "run svc self w = andthen (e3, s3, w3) (\<lambda>s3 x3.
          andthen (phase_campaigns svc s3 x3) (\<lambda>s4 x4.
          andthen (phase_quality svc s4 x4) (\<lambda>s5 x5. (None, s5, print_summary s5 x5))))"
        using r2 p3 None by simp
      have t3: "sent w3 = sent w @ take 3 (expected_requests self o1 o2 None None)"
        and c3: "(\<exists>x. e3 = Some x) \<and> s3 = s2 \<or>
           e3 = None \<and> (\<exists>c. s3 = s2\<lparr>outputs := setitem (outputs s2) ''strategy'' c\<rparr>)"
        using phase_strategy_result[OF _ _ p3, of o1 o2] t2
        by (simp_all add: expected_requests_def s2 gs)
      show ?thesis
      proof (cases e3)
        case (Some x)
        then have "?P 3 2 o1 o2 None None None"
          using r3 c3 t3 s2 by (simp add: setitems_def expected_outputs_def expected_requests_def)
        then show ?thesis by (rule exI7[where P = ?P])
      next
        case None
        then obtain o3 where s3: "s3 = self\<lparr>outputs :=
            setitem (setitem (setitem ?d ''market_research'' o1) ''customer_analysis'' o2)
              ''strategy'' o3\<rparr>"
          using c3 s2 by auto
        obtain e4 s4 w4 where p4: "phase_campaigns svc s3 w3 = (e4, s4, w4)"
          using prod_cases3 by blast
        have r4: "run svc self w = andthen (e4, s4, w4) (\<lambda>s4 x4.
            andthen (phase_quality svc s4 x4) (\<lambda>s5 x5. (None, s5, print_summary s5 x5)))"
          using r3 p4 None by simp
        have t4: "sent w4 = sent w @ take 4 (expected_requests self o1 o2 o3 None)"
          and c4: "(\<exists>x. e4 = Some x) \<and> s4 = s3 \<or>
             e4 = None \<and> (\<exists>c. s4 = s3\<lparr>outputs := setitem (outputs s3) ''campaigns'' c\<rparr>)"
          using phase_campaigns_result[OF _ p4, of o3] t3
          by (simp_all add: expected_requests_def s3 gs)
        show ?thesis
        proof (cases e4)
          case (Some x)
          then have "?P 4 3 o1 o2 o3 None None"
            using r4 c4 t4 s3 by (simp add: setitems_def expected_outputs_def expected_requests_def)
          then show ?thesis by (rule exI7[where P = ?P])
        next
          case None
          then obtain o4 where s4: "s4 = self\<lparr>outputs :=
              setitem (setitem (setitem (setitem ?d ''market_research'' o1)
                ''customer_analysis'' o2) ''strategy'' o3) ''campaigns'' o4\<rparr>"
            using c4 s3 by auto
          obtain e5 s5 w5 where p5: "phase_quality svc s4 w4 = (e5, s5, w5)"
            using prod_cases3 by blast
          have r5: "run svc self w =
              andthen (e5, s5, w5) (\<lambda>s5 x5. (None, s5, print_summary s5 x5))"
            using r4 p5 None by simp
          have t5: "sent w5 = sent w @ take 5 (expected_requests self o1 o2 o3 o4)"
            and c5: "(\<exists>x. e5 = Some x) \<and> s5 = s4 \<or>
               e5 = None \<and> (\<exists>c. s5 = s4\<lparr>outputs := setitem (outputs s4) ''quality'' c\<rparr>)"
            using phase_quality_result[OF _ _ _ _ p5, of o1 o2 o3 o4] t4
            by (simp_all add: expected_requests_def s4 gs)
          show ?thesis
          proof (cases e5)
            case (Some x)
            then have "?P 5 4 o1 o2 o3 o4 None"
              using r5 c5 t5 s4 by (simp add: setitems_def expected_outputs_def expected_requests_def)
            then show ?thesis by (rule exI7[where P = ?P])
          next
            case None
            then obtain o5 where s5: "s5 = s4\<lparr>outputs := setitem (outputs s4) ''quality'' o5\<rparr>"
              using c5 by auto
            have "?P 5 5 o1 o2 o3 o4 o5"
              using r5 None t5 s4 s5 by (simp add: setitems_def expected_outputs_def expected_requests_def)
            then show ?thesis by (rule exI7[where P = ?P])
          qed
        qed
      qed
    qed
  qed
qed

lemma upper_keys:
  "upper ''market_research'' = ''MARKET_RESEARCH''"
  "upper ''customer_analysis'' = ''CUSTOMER_ANALYSIS''"
  "upper ''strategy'' = ''STRATEGY''"
  "upper ''campaigns'' = ''CAMPAIGNS''"
  "upper ''quality'' = ''QUALITY''"
  by code_simp+

lemma stdout_print_items:
  "stdout (print_items kvs w) =
     stdout w @ concat (map (\<lambda>(k, v). [''\<newline>--- '' @ upper k @ '' ---\<newline>'', py_str v]) kvs)"
  by (induction kvs arbitrary: w) auto

lemma stdout_print_summary:
  "stdout (print_summary self w) = stdout w @ summary_lines (outputs self)"
  by (simp add: print_summary_def summary_lines_def items_def stdout_print_items Let_def)

lemma now_print_items [simp]: "now (print_items kvs w) = now w"
  by (induction kvs arbitrary: w) auto

lemma stdout_banner [simp]: "stdout (banner t w) = stdout w @ banner_lines t"
  and now_banner [simp]: "now (banner t w) = now w"
  by (simp_all add: banner_def banner_lines_def)

lemma stdout_run_banner [simp]:
  "stdout (run_banner self w) = stdout w @ run_banner_lines self (now w)"
  and now_run_banner [simp]: "now (run_banner self w) = now w"
  by (simp_all add: run_banner_def run_banner_lines_def Let_def)

lemma send_and_store_ok:
  assumes "svc (service w) req = (Inr \<lparr>choices = c # cs\<rparr>, s')"
  shows "\<exists>w'. send_and_store svc key req self w =
            (None, self\<lparr>outputs := setitem (outputs self) key c\<rparr>, w') \<and>
          service w' = s' \<and> sent w' = sent w @ [req] \<and>
          stdout w' = stdout w @ [py_str c] \<and> now w' = now w"
  using assms by (simp add: send_and_store_def)

lemma send_and_store_raise:
  assumes "svc (service w) req = (Inl err, s')"
  shows "\<exists>w'. send_and_store svc key req self w = (Some err, self, w') \<and>
          service w' = s' \<and> sent w' = sent w @ [req] \<and>
          stdout w' = stdout w \<and> now w' = now w"
  using assms by (simp add: send_and_store_def)

lemma phase_market_research_ok:
  assumes "svc (service w) (mk_request (model self) 0.7 500
              (market_research_system_prompt (product_name self)) market_research_user_prompt)
           = (Inr \<lparr>choices = c # cs\<rparr>, s')"
  shows "\<exists>w'. phase_market_research svc self w =
            (None, self\<lparr>outputs := setitem (outputs self) ''market_research'' c\<rparr>, w') \<and>
          service w' = s' \<and>
          sent w' = sent w @ [mk_request (model self) 0.7 500
              (market_research_system_prompt (product_name self)) market_research_user_prompt] \<and>
          stdout w' = stdout w @ banner_lines ''PHASE 1: MARKET RESEARCH'' @ [py_str c] \<and>
          now w' = now w"
proof -
  let ?b = "banner ''PHASE 1: MARKET RESEARCH'' w"
  have "svc (service ?b) (mk_request (model self) 0.7 500
              (market_research_system_prompt (product_name self)) market_research_user_prompt)
           = (Inr \<lparr>choices = c # cs\<rparr>, s')"
    using assms by simp
  from send_and_store_ok[where svc = svc and w = ?b and key = "''market_research''"
      and self = self, OF this]
  show ?thesis by (simp add: phase_market_research_eq)
qed

lemma phase_customer_analysis_ok:
  assumes "getitem (outputs self) ''market_research'' = Inr o1"
    and "svc (service w) (mk_request (model self) 0.7 400
              customer_analysis_system_prompt (customer_analysis_user_prompt o1))
           = (Inr \<lparr>choices = c # cs\<rparr>, s')"
  shows "\<exists>w'. phase_customer_analysis svc self w =
            (None, self\<lparr>outputs := setitem (outputs self) ''customer_analysis'' c\<rparr>, w') \<and>
          service w' = s' \<and>
          sent w' = sent w @ [mk_request (model self) 0.7 400
              customer_analysis_system_prompt (customer_analysis_user_prompt o1)] \<and>
          stdout w' = stdout w @ banner_lines ''PHASE 2: CUSTOMER INSIGHTS'' @ [py_str c] \<and>
          now w' = now w"
proof -
  let ?b = "banner ''PHASE 2: CUSTOMER INSIGHTS'' w"
  have "svc (service ?b) (mk_request (model self) 0.7 400
              customer_analysis_system_prompt (customer_analysis_user_prompt o1))
           = (Inr \<lparr>choices = c # cs\<rparr>, s')"
    using assms(2) by simp
  from send_and_store_ok[where svc = svc and w = ?b and key = "''customer_analysis''"
      and self = self, OF this]
  show ?thesis by (simp add: phase_customer_analysis_eq assms(1))
qed

lemma phase_strategy_ok:
  assumes "getitem (outputs self) ''market_research'' = Inr o1"
    and "getitem (outputs self) ''customer_analysis'' = Inr o2"
    and "svc (service w) (mk_request (model self) 0.7 500
              (strategy_system_prompt (product_name self)) (strategy_user_prompt o1 o2))
           = (Inr \<lparr>choices = c # cs\<rparr>, s')"
  shows "\<exists>w'. phase_strategy svc self w =
            (None, self\<lparr>outputs := setitem (outputs self) ''strategy'' c\<rparr>, w') \<and>
          service w' = s' \<and>
          sent w' = sent w @ [mk_request (model self) 0.7 500
              (strategy_system_prompt (product_name self)) (strategy_user_prompt o1 o2)] \<and>
          stdout w' = stdout w @ banner_lines ''PHASE 3: MARKETING STRATEGY'' @ [py_str c] \<and>
          now w' = now w"
proof -
  let ?b = "banner ''PHASE 3: MARKETING STRATEGY'' w"
  have "svc (service ?b) (mk_request (model self) 0.7 500
              (strategy_system_prompt (product_name self)) (strategy_user_prompt o1 o2))
           = (Inr \<lparr>choices = c # cs\<rparr>, s')"
    using assms(3) by simp
  from send_and_store_ok[where svc = svc and w = ?b and key = "''strategy''"
      and self = self, OF this]
  show ?thesis by (simp add: phase_strategy_eq assms(1,2))
qed

lemma phase_strategy_raise:
  assumes "getitem (outputs self) ''market_research'' = Inr o1"
    and "getitem (outputs self) ''customer_analysis'' = Inr o2"
    and "svc (service w) (mk_request (model self) 0.7 500
              (strategy_system_prompt (product_name self)) (strategy_user_prompt o1 o2))
           = (Inl err, s')"
  shows "\<exists>w'. phase_strategy svc self w = (Some err, self, w') \<and>
          service w' = s' \<and>
          sent w' = sent w @ [mk_request (model self) 0.7 500
              (strategy_system_prompt (product_name self)) (strategy_user_prompt o1 o2)] \<and>
          stdout w' = stdout w @ banner_lines ''PHASE 3: MARKETING STRATEGY'' \<and>
          now w' = now w"
proof -
  let ?b = "banner ''PHASE 3: MARKETING STRATEGY'' w"
  have "svc (service ?b) (mk_request (model self) 0.7 500
              (strategy_system_prompt (product_name self)) (strategy_user_prompt o1 o2))
           = (Inl err, s')"
    using assms(3) by simp
  from send_and_store_raise[where svc = svc and w = ?b and key = "''strategy''"
      and self = self, OF this]
  show ?thesis by (simp add: phase_strategy_eq assms(1,2))
qed

lemma phase_campaigns_ok:
  assumes "getitem (outputs self) ''strategy'' = Inr o3"
    and "svc (service w) (mk_request (model self) 0.7 500
              campaigns_system_prompt (campaigns_user_prompt o3))
           = (Inr \<lparr>choices = c # cs\<rparr>, s')"
  shows "\<exists>w'. phase_campaigns svc self w =
            (None, self\<lparr>outputs := setitem (outputs self) ''campaigns'' c\<rparr>, w') \<and>
          service w' = s' \<and>
          sent w' = sent w @ [mk_request (model self) 0.7 500
              campaigns_system_prompt (campaigns_user_prompt o3)] \<and>
          stdout w' = stdout w @ banner_lines ''PHASE 4: CAMPAIGN DESIGN'' @ [py_str c] \<and>
          now w' = now w"
proof -
  let ?b = "banner ''PHASE 4: CAMPAIGN DESIGN'' w"
  have "svc (service ?b) (mk_request (model self) 0.7 500
              campaigns_system_prompt (campaigns_user_prompt o3))
           = (Inr \<lparr>choices = c # cs\<rparr>, s')"
    using assms(2) by simp
  from send_and_store_ok[where svc = svc and w = ?b and key = "''campaigns''"
      and self = self, OF this]
  show ?thesis by (simp add: phase_campaigns_eq assms(1))
qed

lemma phase_quality_ok:
  assumes "getitem (outputs self) ''market_research'' = Inr o1"
    and "getitem (outputs self) ''customer_analysis'' = Inr o2"
    and "getitem (outputs self) ''strategy'' = Inr o3"
    and "getitem (outputs self) ''campaigns'' = Inr o4"
    and "svc (service w) (mk_request (model self) 0.5 500
              quality_system_prompt (quality_user_prompt o1 o2 o3 o4))
           = (Inr \<lparr>choices = c # cs\<rparr>, s')"
  shows "\<exists>w'. phase_quality svc self w =
            (None, self\<lparr>outputs := setitem (outputs self) ''quality'' c\<rparr>, w') \<and>
          service w' = s' \<and>
          sent w' = sent w @ [mk_request (model self) 0.5 500
              quality_system_prompt (quality_user_prompt o1 o2 o3 o4)] \<and>
          stdout w' = stdout w @ banner_lines ''PHASE 5: QUALITY REVIEW'' @ [py_str c] \<and>
          now w' = now w"
proof -
  let ?b = "banner ''PHASE 5: QUALITY REVIEW'' w"
  have "svc (service ?b) (mk_request (model self) 0.5 500
              quality_system_prompt (quality_user_prompt o1 o2 o3 o4))
           = (Inr \<lparr>choices = c # cs\<rparr>, s')"
    using assms(5) by simp
  from send_and_store_ok[where svc = svc and w = ?b and key = "''quality''"
      and self = self, OF this]
  show ?thesis by (simp add: phase_quality_eq assms(1,2,3,4))
qed

lemma run_canned:
  assumes s0: "service w = s0"
    and a1: "\<And>req. svc s0 req = (Inr \<lparr>choices = [Some R1]\<rparr>, s1)"
    and a2: "\<And>req. svc s1 req = (Inr \<lparr>choices = [Some R2]\<rparr>, s2)"
    and a3: "\<And>req. svc s2 req = (Inr \<lparr>choices = [Some R3]\<rparr>, s3)"
    and a4: "\<And>req. svc s3 req = (Inr \<lparr>choices = [Some R4]\<rparr>, s4)"
    and a5: "\<And>req. svc s4 req = (Inr \<lparr>choices = [Some R5]\<rparr>, s5)"
  shows "\<exists>w'. run svc self w =
           (None,
            self\<lparr>outputs := setitems (outputs self)
              (expected_outputs (Some R1) (Some R2) (Some R3) (Some R4) (Some R5))\<rparr>, w') \<and>
         service w' = s5 \<and>
         sent w' = sent w @ expected_requests self (Some R1) (Some R2) (Some R3) (Some R4) \<and>
         stdout w' = stdout w @ run_banner_lines self (now w) @
           banner_lines ''PHASE 1: MARKET RESEARCH'' @ [R1] @
           banner_lines ''PHASE 2: CUSTOMER INSIGHTS'' @ [R2] @
           banner_lines ''PHASE 3: MARKETING STRATEGY'' @ [R3] @
           banner_lines ''PHASE 4: CAMPAIGN DESIGN'' @ [R4] @
           banner_lines ''PHASE 5: QUALITY REVIEW'' @ [R5] @
           summary_lines (setitems (outputs self)
              (expected_outputs (Some R1) (Some R2) (Some R3) (Some R4) (Some R5)))"
proof -
  let ?d = "outputs self"
  let ?x0 = "run_banner self w"
  let ?s1 = "self\<lparr>outputs := setitem ?d ''market_research'' (Some R1)\<rparr>"
  let ?s2 = "?s1\<lparr>outputs := setitem (outputs ?s1) ''customer_analysis'' (Some R2)\<rparr>"
  let ?s3 = "?s2\<lparr>outputs := setitem (outputs ?s2) ''strategy'' (Some R3)\<rparr>"
  let ?s4 = "?s3\<lparr>outputs := setitem (outputs ?s3) ''campaigns'' (Some R4)\<rparr>"
  let ?s5 = "?s4\<lparr>outputs := setitem (outputs ?s4) ''quality'' (Some R5)\<rparr>"
  have "service ?x0 = s0" using s0 by simp
  from phase_market_research_ok[where svc = svc and w = ?x0 and self = self
      and c = "Some R1" and cs = "[]" and s' = s1, unfolded this, OF a1]
  obtain x1 where p1: "phase_market_research svc self ?x0 = (None, ?s1, x1)"
    and v1: "service x1 = s1" "now x1 = now w"
    and t1: "sent x1 = sent w @ take 1 (expected_requests self (Some R1) (Some R2) (Some R3) (Some R4))"
    and o1: "stdout x1 = stdout w @ run_banner_lines self (now w) @
       banner_lines ''PHASE 1: MARKET RESEARCH'' @ [R1]"
    by (auto simp: expected_requests_def py_str_def)
  from phase_customer_analysis_ok[where svc = svc and w = x1 and self = ?s1
      and ?o1.0 = "Some R1" and c = "Some R2" and cs = "[]" and s' = s2, unfolded v1, OF _ a2]
  obtain x2 where p2: "phase_customer_analysis svc ?s1 x1 = (None, ?s2, x2)"
    and v2: "service x2 = s2" "now x2 = now w"
    and t2: "sent x2 = sent w @ take 2 (expected_requests self (Some R1) (Some R2) (Some R3) (Some R4))"
    and o2: "stdout x2 = stdout x1 @ banner_lines ''PHASE 2: CUSTOMER INSIGHTS'' @ [R2]"
    using t1 v1 by (auto simp: expected_requests_def py_str_def gs)
  from phase_strategy_ok[where svc = svc and w = x2 and self = ?s2
      and ?o1.0 = "Some R1" and ?o2.0 = "Some R2" and c = "Some R3" and cs = "[]" and s' = s3,
      unfolded v2, OF _ _ a3]
  obtain x3 where p3: "phase_strategy svc ?s2 x2 = (None, ?s3, x3)"
    and v3: "service x3 = s3" "now x3 = now w"
    and t3: "sent x3 = sent w @ take 3 (expected_requests self (Some R1) (Some R2) (Some R3) (Some R4))"
    and o3: "stdout x3 = stdout x2 @ banner_lines ''PHASE 3: MARKETING STRATEGY'' @ [R3]"
    using t2 v2 by (auto simp: expected_requests_def py_str_def gs)
  from phase_campaigns_ok[where svc = svc and w = x3 and self = ?s3
      and ?o3.0 = "Some R3" and c = "Some R4" and cs = "[]" and s' = s4,
      unfolded v3, OF _ a4]
  obtain x4 where p4: "phase_campaigns svc ?s3 x3 = (None, ?s4, x4)"
    and v4: "service x4 = s4" "now x4 = now w"
    and t4: "sent x4 = sent w @ take 4 (expected_requests self (Some R1) (Some R2) (Some R3) (Some R4))"
    and o4: "stdout x4 = stdout x3 @ banner_lines ''PHASE 4: CAMPAIGN DESIGN'' @ [R4]"
    using t3 v3 by (auto simp: expected_requests_def py_str_def gs)
  from phase_quality_ok[where svc = svc and w = x4 and self = ?s4
      and ?o1.0 = "Some R1" and ?o2.0 = "Some R2" and ?o3.0 = "Some R3" and ?o4.0 = "Some R4"
      and c = "Some R5" and cs = "[]" and s' = s5,
      unfolded v4, OF _ _ _ _ a5]
  obtain x5 where p5: "phase_quality svc ?s4 x4 = (None, ?s5, x5)"
    and v5: "service x5 = s5" "now x5 = now w"
    and t5: "sent x5 = sent w @ expected_requests self (Some R1) (Some R2) (Some R3) (Some R4)"
    and o5: "stdout x5 = stdout x4 @ banner_lines ''PHASE 5: QUALITY REVIEW'' @ [R5]"
    using t4 v4 by (auto simp: expected_requests_def py_str_def gs)
  have s5: "?s5 = self\<lparr>outputs := setitems ?d
      (expected_outputs (Some R1) (Some R2) (Some R3) (Some R4) (Some R5))\<rparr>"
    by (simp add: setitems_def expected_outputs_def)
  have "run svc self w = (None, ?s5, print_summary ?s5 x5)"
    by (simp only: run_andthen p1 p2 p3 p4 p5 andthen_simps)
  then show ?thesis
    unfolding s5
    using v5 t5 o1 o2 o3 o4 o5
    by (simp add: stdout_print_summary)
qed

lemma run_raise_in_phase_3:
  assumes s0: "service w = s0"
    and a1: "\<And>req. svc s0 req = (Inr \<lparr>choices = [Some R1]\<rparr>, s1)"
    and a2: "\<And>req. svc s1 req = (Inr \<lparr>choices = [Some R2]\<rparr>, s2)"
    and a3: "\<And>req. svc s2 req = (Inl err, s3)"
  shows "\<exists>w'. run svc self w =
           (Some err,
            self\<lparr>outputs := setitems (outputs self)
              (take 2 (expected_outputs (Some R1) (Some R2) None None None))\<rparr>, w') \<and>
         service w' = s3 \<and>
         sent w' = sent w @ take 3 (expected_requests self (Some R1) (Some R2) None None) \<and>
         stdout w' = stdout w @ run_banner_lines self (now w) @
           banner_lines ''PHASE 1: MARKET RESEARCH'' @ [R1] @
           banner_lines ''PHASE 2: CUSTOMER INSIGHTS'' @ [R2] @
           banner_lines ''PHASE 3: MARKETING STRATEGY''"
proof -
  let ?d = "outputs self"
  let ?x0 = "run_banner self w"
  let ?s1 = "self\<lparr>outputs := setitem ?d ''market_research'' (Some R1)\<rparr>"
  let ?s2 = "?s1\<lparr>outputs := setitem (outputs ?s1) ''customer_analysis'' (Some R2)\<rparr>"
  have "service ?x0 = s0" using s0 by simp
  from phase_market_research_ok[where svc = svc and w = ?x0 and self = self
      and c = "Some R1" and cs = "[]" and s' = s1, unfolded this, OF a1]
  obtain x1 where p1: "phase_market_research svc self ?x0 = (None, ?s1, x1)"
    and v1: "service x1 = s1" "now x1 = now w"
    and t1: "sent x1 = sent w @ take 1 (expected_requests self (Some R1) (Some R2) None None)"
    and o1: "stdout x1 = stdout w @ run_banner_lines self (now w) @
       banner_lines ''PHASE 1: MARKET RESEARCH'' @ [R1]"
    by (auto simp: expected_requests_def py_str_def)
  from phase_customer_analysis_ok[where svc = svc and w = x1 and self = ?s1
      and ?o1.0 = "Some R1" and c = "Some R2" and cs = "[]" and s' = s2, unfolded v1, OF _ a2]
  obtain x2 where p2: "phase_customer_analysis svc ?s1 x1 = (None, ?s2, x2)"
    and v2: "service x2 = s2" "now x2 = now w"
    and t2: "sent x2 = sent w @ take 2 (expected_requests self (Some R1) (Some R2) None None)"
    and o2: "stdout x2 = stdout x1 @ banner_lines ''PHASE 2: CUSTOMER INSIGHTS'' @ [R2]"
    using t1 v1 by (auto simp: expected_requests_def py_str_def gs)
  from phase_strategy_raise[where svc = svc and w = x2 and self = ?s2
      and ?o1.0 = "Some R1" and ?o2.0 = "Some R2" and err = err and s' = s3,
      unfolded v2, OF _ _ a3]
  obtain x3 where p3: "phase_strategy svc ?s2 x2 = (Some err, ?s2, x3)"
    and v3: "service x3 = s3"
    and t3: "sent x3 = sent w @ take 3 (expected_requests self (Some R1) (Some R2) None None)"
    and o3: "stdout x3 = stdout x2 @ banner_lines ''PHASE 3: MARKETING STRATEGY''"
    using t2 v2 by (auto simp: expected_requests_def py_str_def gs)
  have s2: "?s2 = self\<lparr>outputs := setitems ?d
      (take 2 (expected_outputs (Some R1) (Some R2) None None None))\<rparr>"
    by (simp add: setitems_def expected_outputs_def)
  have "run svc self w = (Some err, ?s2, x3)"
    by (simp only: run_andthen p1 p2 p3 andthen_simps)
  then show ?thesis
    unfolding s2
    using v3 t3 o1 o2 o3
    by simp
qed

lemma init_ok:
  "validate_setup Config \<Longrightarrow>
   init Config arg w =
     (Inr \<lparr>client = (API_KEY Config, API_BASE Config), outputs = [],
           model = OPENAI_MODEL Config,
           product_name = (case arg of None \<Rightarrow> ''SmartHealth Fitness Band'' | Some p \<Rightarrow> p)\<rparr>, w)"
  by (simp add: init_def)

text \<open>
  Claim C1. When the configuration is valid and the service answers the five successive calls
  with \<open>R1\<close>, ..., \<open>R5\<close>, building the object and running it ends normally; the dictionary
  then holds exactly the keys \<^verbatim>\<open>market_research\<close>, \<^verbatim>\<open>customer_analysis\<close>,
  \<^verbatim>\<open>strategy\<close>, \<^verbatim>\<open>campaigns\<close>, \<^verbatim>\<open>quality\<close> in this order, bound to
  \<open>R1\<close>, ..., \<open>R5\<close>; five requests were sent; and the last lines printed are the summary,
  which lists the five entries in that same order.
\<close>

theorem pipeline_stores_responses_in_phase_order:
  assumes cfg: "validate_setup Config"
    and s0: "service w = s0"
    and a1: "\<And>req. svc s0 req = (Inr \<lparr>choices = [Some R1]\<rparr>, s1)"
    and a2: "\<And>req. svc s1 req = (Inr \<lparr>choices = [Some R2]\<rparr>, s2)"
    and a3: "\<And>req. svc s2 req = (Inr \<lparr>choices = [Some R3]\<rparr>, s3)"
    and a4: "\<And>req. svc s3 req = (Inr \<lparr>choices = [Some R4]\<rparr>, s4)"
    and a5: "\<And>req. svc s4 req = (Inr \<lparr>choices = [Some R5]\<rparr>, s5)"
  shows "\<exists>self' w' pre.
     workflow_main Config svc arg w = (None, Some self', w') \<and>
     keys (outputs self') =
       [''market_research'', ''customer_analysis'', ''strategy'', ''campaigns'', ''quality''] \<and>
     items (outputs self') =
       [(''market_research'', Some R1), (''customer_analysis'', Some R2),
        (''strategy'', Some R3), (''campaigns'', Some R4), (''quality'', Some R5)] \<and>
     length (sent w') = length (sent w) + 5 \<and>
     stdout w' = pre @
       [CHR ''\<newline>'' # rule80,
        ''FINAL SUMMARY '' @ [CHR 0xE2, CHR 0x80, CHR 0x94] @ '' MARKETING STRATEGY'',
        rule80,
        ''\<newline>--- MARKET_RESEARCH ---\<newline>'', R1,
        ''\<newline>--- CUSTOMER_ANALYSIS ---\<newline>'', R2,
        ''\<newline>--- STRATEGY ---\<newline>'', R3,
        ''\<newline>--- CAMPAIGNS ---\<newline>'', R4,
        ''\<newline>--- QUALITY ---\<newline>'', R5]"
proof -
  let ?self = "\<lparr>client = (API_KEY Config, API_BASE Config), outputs = [],
           model = OPENAI_MODEL Config,
           product_name = (case arg of None \<Rightarrow> ''SmartHealth Fitness Band'' | Some p \<Rightarrow> p)\<rparr>"
  let ?d = "[(''market_research'', Some R1), (''customer_analysis'', Some R2),
        (''strategy'', Some R3), (''campaigns'', Some R4), (''quality'', Some R5)]"
  have d: "setitems (outputs ?self)
      (expected_outputs (Some R1) (Some R2) (Some R3) (Some R4) (Some R5)) = ?d"
    by (simp add: setitems_def expected_outputs_def)
  have sl: "summary_lines ?d =
       [CHR ''\<newline>'' # rule80,
        ''FINAL SUMMARY '' @ [CHR 0xE2, CHR 0x80, CHR 0x94] @ '' MARKETING STRATEGY'',
        rule80,
        ''\<newline>--- MARKET_RESEARCH ---\<newline>'', R1,
        ''\<newline>--- CUSTOMER_ANALYSIS ---\<newline>'', R2,
        ''\<newline>--- STRATEGY ---\<newline>'', R3,
        ''\<newline>--- CAMPAIGNS ---\<newline>'', R4,
        ''\<newline>--- QUALITY ---\<newline>'', R5]"
    by (simp add: summary_lines_def upper_keys py_str_def)
  from run_canned[where self = ?self and svc = svc and ?s0.0 = s0 and ?s1.0 = s1 and ?s2.0 = s2
      and ?s3.0 = s3 and ?s4.0 = s4 and ?s5.0 = s5 and ?R1.0 = R1 and ?R2.0 = R2 and ?R3.0 = R3
      and ?R4.0 = R4 and ?R5.0 = R5, OF s0 a1 a2 a3 a4 a5]
  obtain w' where r: "run svc ?self w = (None, ?self\<lparr>outputs := ?d\<rparr>, w')"
    and t: "sent w' = sent w @ expected_requests ?self (Some R1) (Some R2) (Some R3) (Some R4)"
    and o: "stdout w' = (stdout w @ run_banner_lines ?self (now w) @
           banner_lines ''PHASE 1: MARKET RESEARCH'' @ [R1] @
           banner_lines ''PHASE 2: CUSTOMER INSIGHTS'' @ [R2] @
           banner_lines ''PHASE 3: MARKETING STRATEGY'' @ [R3] @
           banner_lines ''PHASE 4: CAMPAIGN DESIGN'' @ [R4] @
           banner_lines ''PHASE 5: QUALITY REVIEW'' @ [R5]) @ summary_lines ?d"
    unfolding d by auto
  have m: "workflow_main Config svc arg w = (None, Some (?self\<lparr>outputs := ?d\<rparr>), w')"
    by (simp add: workflow_main_def init_ok[OF cfg] r)
  have "length (sent w') = length (sent w) + 5"
    by (simp add: t expected_requests_def)
  with m o show ?thesis
    unfolding sl
    by (intro exI[of _ "?self\<lparr>outputs := ?d\<rparr>"] exI[of _ w']
          exI[of _ "stdout w @ run_banner_lines ?self (now w) @
           banner_lines ''PHASE 1: MARKET RESEARCH'' @ [R1] @
           banner_lines ''PHASE 2: CUSTOMER INSIGHTS'' @ [R2] @
           banner_lines ''PHASE 3: MARKETING STRATEGY'' @ [R3] @
           banner_lines ''PHASE 4: CAMPAIGN DESIGN'' @ [R4] @
           banner_lines ''PHASE 5: QUALITY REVIEW'' @ [R5]"])
       (simp add: keys_def items_def)
qed

theorem pipeline_stores_responses_in_phase_order_witness:
  "validate_setup config_ok \<and>
   (\<exists>self' w' pre.
     workflow_main config_ok scripted_service (Some ''Widget X'')
       (world0 [Inr ''R1'', Inr ''R2'', Inr ''R3'', Inr ''R4'', Inr ''R5'']) = (None, Some self', w') \<and>
     items (outputs self') =
       [(''market_research'', Some ''R1''), (''customer_analysis'', Some ''R2''),
        (''strategy'', Some ''R3''), (''campaigns'', Some ''R4''), (''quality'', Some ''R5'')] \<and>
     stdout w' = pre @
       [CHR ''\<newline>'' # rule80,
        ''FINAL SUMMARY '' @ [CHR 0xE2, CHR 0x80, CHR 0x94] @ '' MARKETING STRATEGY'',
        rule80,
        ''\<newline>--- MARKET_RESEARCH ---\<newline>'', ''R1'',
        ''\<newline>--- CUSTOMER_ANALYSIS ---\<newline>'', ''R2'',
        ''\<newline>--- STRATEGY ---\<newline>'', ''R3'',
        ''\<newline>--- CAMPAIGNS ---\<newline>'', ''R4'',
        ''\<newline>--- QUALITY ---\<newline>'', ''R5''])"
proof -
  have c: "validate_setup config_ok" by (simp add: config_ok_def)
  have s: "service (world0 [Inr ''R1'', Inr ''R2'', Inr ''R3'', Inr ''R4'', Inr ''R5''])
      = [Inr ''R1'', Inr ''R2'', Inr ''R3'', Inr ''R4'', Inr ''R5'']"
    by (simp add: world0_def)
  from pipeline_stores_responses_in_phase_order[where svc = scripted_service
      and arg = "Some ''Widget X''" and ?s1.0 = "[Inr ''R2'', Inr ''R3'', Inr ''R4'', Inr ''R5'']"
      and ?s2.0 = "[Inr ''R3'', Inr ''R4'', Inr ''R5'']" and ?s3.0 = "[Inr ''R4'', Inr ''R5'']"
      and ?s4.0 = "[Inr ''R5'']" and ?s5.0 = "[]"
      and ?R1.0 = "''R1''" and ?R2.0 = "''R2''" and ?R3.0 = "''R3''" and ?R4.0 = "''R4''"
      and ?R5.0 = "''R5''", OF c s]
  show ?thesis using c by simp blast
qed

text \<open>
  Claim C3. When the validation check of the configuration fails, the constructor prints the
  error line and raises \<^verbatim>\<open>SystemExit(1)\<close>: no object is built, nothing else is printed (so
  no phase has begun), and the list of requests received by the service is unchanged, so the
  number of generation calls made is zero.
\<close>

theorem invalid_configuration_stops_before_any_call:
  assumes "\<not> validate_setup Config"
  shows "init Config arg w =
           (Inl (SystemExit 1), w\<lparr>stdout := stdout w @ [''ERROR: Configuration validation failed!'']\<rparr>) \<and>
         workflow_main Config svc arg w =
           (Some (SystemExit 1), None,
            w\<lparr>stdout := stdout w @ [''ERROR: Configuration validation failed!'']\<rparr>) \<and>
         main Config svc w =
           (Some (SystemExit 1), None,
            w\<lparr>stdout := stdout w @ [''ERROR: Configuration validation failed!'']\<rparr>) \<and>
         sent (snd (snd (workflow_main Config svc arg w))) = sent w \<and>
         length (sent (snd (snd (workflow_main Config svc arg w)))) - length (sent w) = 0"
  using assms by (simp add: init_def workflow_main_def main_def print_def)

theorem invalid_configuration_stops_before_any_call_witness:
  "\<not> validate_setup config_bad \<and>
   workflow_main config_bad scripted_service (Some ''Widget X'')
       (world0 [Inr ''R1'', Inr ''R2'', Inr ''R3'', Inr ''R4'', Inr ''R5'']) =
     (Some (SystemExit 1), None,
      \<lparr>service = [Inr ''R1'', Inr ''R2'', Inr ''R3'', Inr ''R4'', Inr ''R5''], sent = [],
       stdout = [''ERROR: Configuration validation failed!''],
       now = ''2025-01-01 09:00:00.000000''\<rparr>) \<and>
   sent (snd (snd (workflow_main config_bad scripted_service (Some ''Widget X'')
       (world0 [Inr ''R1'', Inr ''R2'', Inr ''R3'', Inr ''R4'', Inr ''R5''])))) = []"
proof -
  have c: "\<not> validate_setup config_bad" by (simp add: config_bad_def)
  from invalid_configuration_stops_before_any_call[OF c, where svc = scripted_service
      and arg = "Some ''Widget X''"
      and w = "world0 [Inr ''R1'', Inr ''R2'', Inr ''R3'', Inr ''R4'', Inr ''R5'']"]
  show ?thesis using c by (simp add: world0_def)
qed

text \<open>
  Claim C4. When the configuration is valid, the first two calls are answered with \<open>R1\<close> and
  \<open>R2\<close> and the service raises on the third call, the run aborts with that error; the
  dictionary then holds exactly the entries of phases 1 and 2; exactly three requests were
  sent; and the output ends with the header of phase 3, so phases 4 and 5 never began.
\<close>

theorem error_in_phase_3_keeps_two_outputs:
  assumes cfg: "validate_setup Config"
    and s0: "service w = s0"
    and a1: "\<And>req. svc s0 req = (Inr \<lparr>choices = [Some R1]\<rparr>, s1)"
    and a2: "\<And>req. svc s1 req = (Inr \<lparr>choices = [Some R2]\<rparr>, s2)"
    and a3: "\<And>req. svc s2 req = (Inl err, s3)"
  shows "\<exists>self' w'.
     workflow_main Config svc arg w = (Some err, Some self', w') \<and>
     keys (outputs self') = [''market_research'', ''customer_analysis''] \<and>
     outputs self' = [(''market_research'', Some R1), (''customer_analysis'', Some R2)] \<and>
     length (sent w') = length (sent w) + 3 \<and>
     service w' = s3 \<and>
     stdout w' = stdout w @
       [CHR ''\<newline>'' # rule80, ''AUTOGEN MARKETING STRATEGY WORKFLOW'', rule80,
        ''Product: '' @ product_name self', ''Model: '' @ model self',
        ''Start Time: '' @ now w @ ''\<newline>'',
        CHR ''\<newline>'' # rule80, ''PHASE 1: MARKET RESEARCH'', rule80, R1,
        CHR ''\<newline>'' # rule80, ''PHASE 2: CUSTOMER INSIGHTS'', rule80, R2,
        CHR ''\<newline>'' # rule80, ''PHASE 3: MARKETING STRATEGY'', rule80]"
proof -
  let ?self = "\<lparr>client = (API_KEY Config, API_BASE Config), outputs = [],
           model = OPENAI_MODEL Config,
           product_name = (case arg of None \<Rightarrow> ''SmartHealth Fitness Band'' | Some p \<Rightarrow> p)\<rparr>"
  let ?d = "[(''market_research'', Some R1), (''customer_analysis'', Some R2)]"
  have d: "setitems (outputs ?self)
      (take 2 (expected_outputs (Some R1) (Some R2) None None None)) = ?d"
    by (simp add: setitems_def expected_outputs_def)
  from run_raise_in_phase_3[where self = ?self and svc = svc and ?s0.0 = s0 and ?s1.0 = s1
      and ?s2.0 = s2 and ?s3.0 = s3 and ?R1.0 = R1 and ?R2.0 = R2 and err = err,
      OF s0 a1 a2 a3]
  obtain w' where r: "run svc ?self w = (Some err, ?self\<lparr>outputs := ?d\<rparr>, w')"
    and v: "service w' = s3"
    and t: "sent w' = sent w @ take 3 (expected_requests ?self (Some R1) (Some R2) None None)"
    and o: "stdout w' = stdout w @ run_banner_lines ?self (now w) @
           banner_lines ''PHASE 1: MARKET RESEARCH'' @ [R1] @
           banner_lines ''PHASE 2: CUSTOMER INSIGHTS'' @ [R2] @
           banner_lines ''PHASE 3: MARKETING STRATEGY''"
    unfolding d by auto
  have m: "workflow_main Config svc arg w = (Some err, Some (?self\<lparr>outputs := ?d\<rparr>), w')"
    by (simp add: workflow_main_def init_ok[OF cfg] r)
  have "length (sent w') = length (sent w) + 3"
    by (simp add: t expected_requests_def)
  with m o v show ?thesis
    by (intro exI[of _ "?self\<lparr>outputs := ?d\<rparr>"] exI[of _ w'])
       (simp add: keys_def run_banner_lines_def banner_lines_def)
qed

theorem error_in_phase_3_keeps_two_outputs_witness:
  "validate_setup config_ok \<and>
   (\<exists>self' w'.
     workflow_main config_ok scripted_service (Some ''Widget X'')
       (world0 [Inr ''R1'', Inr ''R2'', Inl (GenerationServiceError ''rate limit''),
                Inr ''R4'', Inr ''R5'']) =
       (Some (GenerationServiceError ''rate limit''), Some self', w') \<and>
     outputs self' = [(''market_research'', Some ''R1''), (''customer_analysis'', Some ''R2'')] \<and>
     length (sent w') = 3 \<and>
     service w' = [Inr ''R4'', Inr ''R5''])"
proof -
  have c: "validate_setup config_ok" by (simp add: config_ok_def)
  have s: "service (world0 [Inr ''R1'', Inr ''R2'', Inl (GenerationServiceError ''rate limit''),
                Inr ''R4'', Inr ''R5''])
      = [Inr ''R1'', Inr ''R2'', Inl (GenerationServiceError ''rate limit''), Inr ''R4'', Inr ''R5'']"
    by (simp add: world0_def)
  from error_in_phase_3_keeps_two_outputs[where svc = scripted_service
      and arg = "Some ''Widget X''"
      and ?s1.0 = "[Inr ''R2'', Inl (GenerationServiceError ''rate limit''), Inr ''R4'', Inr ''R5'']"
      and ?s2.0 = "[Inl (GenerationServiceError ''rate limit''), Inr ''R4'', Inr ''R5'']"
      and ?s3.0 = "[Inr ''R4'', Inr ''R5'']"
      and ?R1.0 = "''R1''" and ?R2.0 = "''R2''" and err = "GenerationServiceError ''rate limit''",
      OF c s]
  show ?thesis using c by (simp add: world0_def) blast
qed

text \<open>
  Claim C10. Leaving the product name out of the constructor call is the same as passing
  \<^verbatim>\<open>"SmartHealth Fitness Band"\<close>: the constructor returns the same result, the whole run
  (result, object and world) is the same, and it is what the script itself does; when the
  configuration is valid the object built has that product name.
\<close>

theorem default_product_name:
  "init Config None w = init Config (Some ''SmartHealth Fitness Band'') w \<and>
   workflow_main Config svc None w =
     workflow_main Config svc (Some ''SmartHealth Fitness Band'') w \<and>
   workflow_main Config svc None w = main Config svc w \<and>
   (validate_setup Config \<longrightarrow>
     (\<exists>self. init Config None w = (Inr self, w) \<and>
        product_name self = ''SmartHealth Fitness Band''))"
  by (simp add: init_def workflow_main_def main_def)

theorem default_product_name_witness:
  "validate_setup config_ok \<and>
   (\<exists>self. init config_ok None (world0 [Inr ''R1'' :: error + string]) =
        (Inr self, world0 [Inr ''R1'']) \<and>
        product_name self = ''SmartHealth Fitness Band'') \<and>
   workflow_main config_ok scripted_service None (world0 [Inr ''R1'']) =
     main config_ok scripted_service (world0 [Inr ''R1''])"
proof -
  have c: "validate_setup config_ok" by (simp add: config_ok_def)
  from default_product_name[of config_ok "world0 [Inr ''R1'']" scripted_service]
  show ?thesis using c by blast
qed

lemma issued_append: "sent (snd (snd r)) = sent w @ xs \<Longrightarrow> issued w r = xs"
  by (simp add: issued_def)

lemma sent_send_and_store:
  "sent (snd (snd (send_and_store svc key req self w))) = sent w @ [req]"
  by (simp add: send_and_store_def split: prod.splits sum.splits list.splits)

lemma issued_send_and_store:
  "sent w = sent w0 \<Longrightarrow> issued w0 (send_and_store svc key req self w) = [req]"
  by (rule issued_append) (simp add: sent_send_and_store)

lemma issued_silent: "sent w = sent w0 \<Longrightarrow> issued w0 (e, self, w) = []"
  by (simp add: issued_def)

lemma phase_market_research_issued:
  "issued w (phase_market_research svc self w) =
     [mk_request (model self) 0.7 500 (market_research_system_prompt (product_name self))
        market_research_user_prompt]"
  by (simp add: phase_market_research_eq issued_send_and_store)

lemma phase_customer_analysis_issued:
  "issued w (phase_customer_analysis svc self w) =
     (case getitem (outputs self) ''market_research'' of
        Inl e \<Rightarrow> []
      | Inr o1 \<Rightarrow> [mk_request (model self) 0.7 400 customer_analysis_system_prompt
                    (customer_analysis_user_prompt o1)])"
  by (simp add: phase_customer_analysis_eq issued_send_and_store issued_silent
      split: sum.splits)

lemma phase_strategy_issued:
  "issued w (phase_strategy svc self w) =
     (case getitem (outputs self) ''market_research'' of
        Inl e \<Rightarrow> []
      | Inr o1 \<Rightarrow>
     (case getitem (outputs self) ''customer_analysis'' of
        Inl e \<Rightarrow> []
      | Inr o2 \<Rightarrow> [mk_request (model self) 0.7 500 (strategy_system_prompt (product_name self))
                    (strategy_user_prompt o1 o2)]))"
  by (simp add: phase_strategy_eq issued_send_and_store issued_silent
      split: sum.splits)

lemma phase_campaigns_issued:
  "issued w (phase_campaigns svc self w) =
     (case getitem (outputs self) ''strategy'' of
        Inl e \<Rightarrow> []
      | Inr o3 \<Rightarrow> [mk_request (model self) 0.7 500 campaigns_system_prompt
                    (campaigns_user_prompt o3)])"
  by (simp add: phase_campaigns_eq issued_send_and_store issued_silent
      split: sum.splits)

lemma phase_quality_issued:
  "issued w (phase_quality svc self w) =
     (case getitem (outputs self) ''market_research'' of
        Inl e \<Rightarrow> []
      | Inr o1 \<Rightarrow>
     (case getitem (outputs self) ''customer_analysis'' of
        Inl e \<Rightarrow> []
      | Inr o2 \<Rightarrow>
     (case getitem (outputs self) ''strategy'' of
        Inl e \<Rightarrow> []
      | Inr o3 \<Rightarrow>
     (case getitem (outputs self) ''campaigns'' of
        Inl e \<Rightarrow> []
      | Inr o4 \<Rightarrow> [mk_request (model self) 0.5 500 quality_system_prompt
                    (quality_user_prompt o1 o2 o3 o4)]))))"
  by (simp add: phase_quality_eq issued_send_and_store issued_silent
      split: sum.splits)

lemma run_issued:
  "\<exists>n m o1 o2 o3 o4 o5.
     1 \<le> n \<and> n \<le> 5 \<and> m \<le> n \<and> n \<le> Suc m \<and>
     (fst (run svc self w) = None \<longleftrightarrow> m = 5) \<and>
     fst (snd (run svc self w)) =
       self\<lparr>outputs := setitems (outputs self) (take m (expected_outputs o1 o2 o3 o4 o5))\<rparr> \<and>
     issued w (run svc self w) = take n (expected_requests self o1 o2 o3 o4)"
  using run_trace[of svc self w]
  apply (elim exE conjE)
  subgoal for n m o1 o2 o3 o4 o5
    by (rule exI7[where a = n and b = m and c = o1 and d = o2 and e = o3 and f = o4 and g = o5])
       (simp add: issued_def)
  done

lemma widget_run:
  "\<exists>w'. run scripted_service widget (world0 five_answers) =
      (None,
       widget\<lparr>outputs := [(''market_research'', Some ''R1''), (''customer_analysis'', Some ''R2''),
          (''strategy'', Some ''R3''), (''campaigns'', Some ''R4''), (''quality'', Some ''R5'')]\<rparr>,
       w') \<and>
     sent w' = expected_requests widget (Some ''R1'') (Some ''R2'') (Some ''R3'') (Some ''R4'')"
proof -
  have s: "service (world0 five_answers) = five_answers" by (simp add: world0_def)
  have d: "setitems (outputs widget)
      (expected_outputs (Some ''R1'') (Some ''R2'') (Some ''R3'') (Some ''R4'') (Some ''R5'')) =
      [(''market_research'', Some ''R1''), (''customer_analysis'', Some ''R2''),
          (''strategy'', Some ''R3''), (''campaigns'', Some ''R4''), (''quality'', Some ''R5'')]"
    by (simp add: setitems_def expected_outputs_def widget_def)
  from run_canned[where svc = scripted_service and self = widget and w = "world0 five_answers"
      and ?s0.0 = five_answers
      and ?s1.0 = "[Inr ''R2'', Inr ''R3'', Inr ''R4'', Inr ''R5'']"
      and ?s2.0 = "[Inr ''R3'', Inr ''R4'', Inr ''R5'']" and ?s3.0 = "[Inr ''R4'', Inr ''R5'']"
      and ?s4.0 = "[Inr ''R5'']" and ?s5.0 = "[]"
      and ?R1.0 = "''R1''" and ?R2.0 = "''R2''" and ?R3.0 = "''R3''" and ?R4.0 = "''R4''"
      and ?R5.0 = "''R5''", OF s]
  show ?thesis
    unfolding d by (simp add: five_answers_def) (auto simp: world0_def)
qed

lemma widget_run_ok: "fst (run scripted_service widget (world0 five_answers)) = None"
  using widget_run by auto

lemma widget_run_outputs:
  "outputs (fst (snd (run scripted_service widget (world0 five_answers)))) =
     [(''market_research'', Some ''R1''), (''customer_analysis'', Some ''R2''),
      (''strategy'', Some ''R3''), (''campaigns'', Some ''R4''), (''quality'', Some ''R5'')]"
  using widget_run by auto

lemma expected_requests_parameters:
  "map (\<lambda>r. (temperature r, max_tokens r)) (expected_requests self o1 o2 o3 o4) =
     [(0.7, 500), (0.7, 400), (0.7, 500), (0.7, 500), (0.5, 500)]"
  by (simp add: expected_requests_def mk_request_def)

lemma expected_requests_roles:
  "r \<in> set (expected_requests self o1 o2 o3 o4) \<Longrightarrow> map role (messages r) = [''system'', ''user'']"
  by (auto simp: expected_requests_def mk_request_def)

lemma expected_requests_system:
  "map (contents_of ''system'') (expected_requests self o1 o2 o3 o4) =
     [[market_research_system_prompt (product_name self)], [customer_analysis_system_prompt],
      [strategy_system_prompt (product_name self)], [campaigns_system_prompt],
      [quality_system_prompt]]"
  by (simp add: expected_requests_def mk_request_def contents_of_def)

lemma expected_requests_user:
  "map (contents_of ''user'') (expected_requests self o1 o2 o3 o4) =
     [[market_research_user_prompt], [customer_analysis_user_prompt o1],
      [strategy_user_prompt o1 o2], [campaigns_user_prompt o3],
      [quality_user_prompt o1 o2 o3 o4]]"
  by (simp add: expected_requests_def mk_request_def contents_of_def)

text \<open>
  Claim C5. Every phase sends exactly one request, with temperature 0.7 (0.5 in phase 5) and
  at most 500 tokens (400 in phase 2); a phase whose input is missing from the dictionary
  raises \<^verbatim>\<open>KeyError\<close> before it sends anything. In a run the requests sent are therefore the
  first \<open>n\<close> of the five, one for each phase that began, and all five when the run ends
  normally.
\<close>

theorem every_phase_sends_one_request_with_fixed_parameters:
  "map (\<lambda>r. (temperature r, max_tokens r)) (issued w (phase_market_research svc self w)) =
     [(0.7, 500)] \<and>
   map (\<lambda>r. (temperature r, max_tokens r)) (issued w (phase_customer_analysis svc self w)) =
     (case getitem (outputs self) ''market_research'' of Inl e \<Rightarrow> [] | Inr o1 \<Rightarrow> [(0.7, 400)]) \<and>
   map (\<lambda>r. (temperature r, max_tokens r)) (issued w (phase_strategy svc self w)) =
     (case getitem (outputs self) ''market_research'' of Inl e \<Rightarrow> [] | Inr o1 \<Rightarrow>
      case getitem (outputs self) ''customer_analysis'' of Inl e \<Rightarrow> [] | Inr o2 \<Rightarrow>
        [(0.7, 500)]) \<and>
   map (\<lambda>r. (temperature r, max_tokens r)) (issued w (phase_campaigns svc self w)) =
     (case getitem (outputs self) ''strategy'' of Inl e \<Rightarrow> [] | Inr o3 \<Rightarrow> [(0.7, 500)]) \<and>
   map (\<lambda>r. (temperature r, max_tokens r)) (issued w (phase_quality svc self w)) =
     (case getitem (outputs self) ''market_research'' of Inl e \<Rightarrow> [] | Inr o1 \<Rightarrow>
      case getitem (outputs self) ''customer_analysis'' of Inl e \<Rightarrow> [] | Inr o2 \<Rightarrow>
      case getitem (outputs self) ''strategy'' of Inl e \<Rightarrow> [] | Inr o3 \<Rightarrow>
      case getitem (outputs self) ''campaigns'' of Inl e \<Rightarrow> [] | Inr o4 \<Rightarrow>
        [(0.5, 500)]) \<and>
   (\<exists>n. 1 \<le> n \<and> n \<le> 5 \<and> (fst (run svc self w) = None \<longrightarrow> n = 5) \<and>
      map (\<lambda>r. (temperature r, max_tokens r)) (issued w (run svc self w)) =
        take n [(0.7, 500), (0.7, 400), (0.7, 500), (0.7, 500), (0.5, 500)])"
proof -
  from run_issued[of svc self w] obtain n m o1 o2 o3 o4 where
    b: "1 \<le> n" "n \<le> 5" "m \<le> n" "fst (run svc self w) = None \<longleftrightarrow> m = 5"
    and i: "issued w (run svc self w) = take n (expected_requests self o1 o2 o3 o4)"
    by auto
  have "map (\<lambda>r. (temperature r, max_tokens r)) (issued w (run svc self w)) =
        take n [(0.7, 500), (0.7, 400), (0.7, 500), (0.7, 500), (0.5, 500)]"
    unfolding i take_map[symmetric] expected_requests_parameters ..
  moreover have "fst (run svc self w) = None \<longrightarrow> n = 5" using b by auto
  ultimately have "\<exists>n. 1 \<le> n \<and> n \<le> 5 \<and> (fst (run svc self w) = None \<longrightarrow> n = 5) \<and>
      map (\<lambda>r. (temperature r, max_tokens r)) (issued w (run svc self w)) =
        take n [(0.7, 500), (0.7, 400), (0.7, 500), (0.7, 500), (0.5, 500)]"
    using b(1,2) by (intro exI[of _ n]) simp
  then show ?thesis
    by (simp add: phase_market_research_issued phase_customer_analysis_issued
        phase_strategy_issued phase_campaigns_issued phase_quality_issued mk_request_def
        split: sum.splits)
qed

theorem every_phase_sends_one_request_with_fixed_parameters_witness:
  "fst (run scripted_service widget (world0 five_answers)) = None \<and>
   map (\<lambda>r. (temperature r, max_tokens r))
     (issued (world0 five_answers) (run scripted_service widget (world0 five_answers))) =
     [(0.7, 500), (0.7, 400), (0.7, 500), (0.7, 500), (0.5, 500)] \<and>
   map (\<lambda>r. (temperature r, max_tokens r))
     (issued (world0 five_answers)
        (phase_customer_analysis scripted_service
           (widget\<lparr>outputs := [(''market_research'', Some ''R1'')]\<rparr>) (world0 five_answers))) =
     [(0.7, 400)]"
proof -
  have ok: "fst (run scripted_service widget (world0 five_answers)) = None"
    by (rule widget_run_ok)
  from every_phase_sends_one_request_with_fixed_parameters[of "world0 five_answers"
      scripted_service widget] ok
  have a: "map (\<lambda>r. (temperature r, max_tokens r))
     (issued (world0 five_answers) (run scripted_service widget (world0 five_answers))) =
     [(0.7, 500), (0.7, 400), (0.7, 500), (0.7, 500), (0.5, 500)]"
    by auto
  from every_phase_sends_one_request_with_fixed_parameters[of "world0 five_answers"
      scripted_service "widget\<lparr>outputs := [(''market_research'', Some ''R1'')]\<rparr>"]
  have b: "map (\<lambda>r. (temperature r, max_tokens r))
     (issued (world0 five_answers)
        (phase_customer_analysis scripted_service
           (widget\<lparr>outputs := [(''market_research'', Some ''R1'')]\<rparr>) (world0 five_answers))) =
     [(0.7, 400)]"
    by (simp add: getitem_def)
  from ok a b show ?thesis by simp
qed

text \<open>
  Claim C9. Every request sent by any of the five phases, and hence every request sent during
  a run, carries exactly two messages: the first with role \<^verbatim>\<open>system\<close>, the second with role
  \<^verbatim>\<open>user\<close>.
\<close>

theorem every_request_is_system_then_user:
  "(\<forall>r \<in> set (issued w (phase_market_research svc self w)).
      map role (messages r) = [''system'', ''user'']) \<and>
   (\<forall>r \<in> set (issued w (phase_customer_analysis svc self w)).
      map role (messages r) = [''system'', ''user'']) \<and>
   (\<forall>r \<in> set (issued w (phase_strategy svc self w)).
      map role (messages r) = [''system'', ''user'']) \<and>
   (\<forall>r \<in> set (issued w (phase_campaigns svc self w)).
      map role (messages r) = [''system'', ''user'']) \<and>
   (\<forall>r \<in> set (issued w (phase_quality svc self w)).
      map role (messages r) = [''system'', ''user'']) \<and>
   (\<forall>r \<in> set (issued w (run svc self w)).
      map role (messages r) = [''system'', ''user''])"
proof -
  from run_issued[of svc self w] obtain n o1 o2 o3 o4 where
    i: "issued w (run svc self w) = take n (expected_requests self o1 o2 o3 o4)"
    by auto
  have "\<forall>r \<in> set (issued w (run svc self w)). map role (messages r) = [''system'', ''user'']"
    unfolding i using expected_requests_roles by (blast dest: in_set_takeD)
  then show ?thesis
    by (auto simp: phase_market_research_issued phase_customer_analysis_issued
        phase_strategy_issued phase_campaigns_issued phase_quality_issued mk_request_def
        split: sum.splits)
qed

theorem every_request_is_system_then_user_witness:
  "map (\<lambda>r. map role (messages r))
     (issued (world0 five_answers) (run scripted_service widget (world0 five_answers))) =
   [[''system'', ''user''], [''system'', ''user''], [''system'', ''user''],
    [''system'', ''user''], [''system'', ''user'']]"
proof -
  let ?xs = "issued (world0 five_answers) (run scripted_service widget (world0 five_answers))"
  from widget_run have len: "length ?xs = 5"
    by (auto simp: issued_def world0_def expected_requests_def)
  note t = every_request_is_system_then_user[of "world0 five_answers" scripted_service widget,
      THEN conjunct2, THEN conjunct2, THEN conjunct2, THEN conjunct2, THEN conjunct2]
  have "map (\<lambda>r. map role (messages r)) ?xs = map (\<lambda>r. [''system'', ''user'']) ?xs"
    by (rule map_cong[OF refl]) (use t in blast)
  also have "\<dots> = replicate 5 [''system'', ''user'']"
    by (simp add: map_replicate_const len)
  finally show ?thesis by (simp add: numeral_eq_Suc)
qed

lemma sublist_market_research_system_prompt: "sublist pn (market_research_system_prompt pn)"
  unfolding market_research_system_prompt_def by (rule sublist_appendI)

lemma sublist_strategy_system_prompt: "sublist pn (strategy_system_prompt pn)"
  unfolding strategy_system_prompt_def by (rule sublist_appendI)

lemma system_prompts_parts:
  "sublist pn (market_research_system_prompt pn) \<and>
   sublist pn (strategy_system_prompt pn) \<and>
   sublist ''Widget X'' (market_research_system_prompt ''Widget X'') \<and>
   map (contents_of ''system'') (issued w (phase_market_research svc self w)) =
     [[market_research_system_prompt (product_name self)]] \<and>
   (\<forall>r \<in> set (issued w (phase_customer_analysis svc self w)).
      contents_of ''system'' r = [customer_analysis_system_prompt]) \<and>
   (\<forall>r \<in> set (issued w (phase_strategy svc self w)).
      contents_of ''system'' r = [strategy_system_prompt (product_name self)]) \<and>
   (\<forall>r \<in> set (issued w (phase_campaigns svc self w)).
      contents_of ''system'' r = [campaigns_system_prompt]) \<and>
   (\<forall>r \<in> set (issued w (phase_quality svc self w)).
      contents_of ''system'' r = [quality_system_prompt]) \<and>
   (\<exists>n. 1 \<le> n \<and> n \<le> 5 \<and> (fst (run svc self w) = None \<longrightarrow> n = 5) \<and>
      map (contents_of ''system'') (issued w (run svc self w)) =
        take n [[market_research_system_prompt (product_name self)],
                [customer_analysis_system_prompt],
                [strategy_system_prompt (product_name self)],
                [campaigns_system_prompt],
                [quality_system_prompt]])"
proof -
  from run_issued[of svc self w] obtain n m o1 o2 o3 o4 where
    b: "1 \<le> n" "n \<le> 5" "m \<le> n" "fst (run svc self w) = None \<longleftrightarrow> m = 5"
    and i: "issued w (run svc self w) = take n (expected_requests self o1 o2 o3 o4)"
    by auto
  have "map (contents_of ''system'') (issued w (run svc self w)) =
        take n [[market_research_system_prompt (product_name self)],
                [customer_analysis_system_prompt],
                [strategy_system_prompt (product_name self)],
                [campaigns_system_prompt],
                [quality_system_prompt]]"
    unfolding i take_map[symmetric] expected_requests_system ..
  moreover have "fst (run svc self w) = None \<longrightarrow> n = 5" using b by auto
  ultimately have r: "\<exists>n. 1 \<le> n \<and> n \<le> 5 \<and> (fst (run svc self w) = None \<longrightarrow> n = 5) \<and>
      map (contents_of ''system'') (issued w (run svc self w)) =
        take n [[market_research_system_prompt (product_name self)],
                [customer_analysis_system_prompt],
                [strategy_system_prompt (product_name self)],
                [campaigns_system_prompt],
                [quality_system_prompt]]"
    using b(1,2) by (intro exI[of _ n]) simp
  have p: "map (contents_of ''system'') (issued w (phase_market_research svc self w)) =
       [[market_research_system_prompt (product_name self)]]"
    "\<forall>r \<in> set (issued w (phase_customer_analysis svc self w)).
      contents_of ''system'' r = [customer_analysis_system_prompt]"
    "\<forall>r \<in> set (issued w (phase_strategy svc self w)).
      contents_of ''system'' r = [strategy_system_prompt (product_name self)]"
    "\<forall>r \<in> set (issued w (phase_campaigns svc self w)).
      contents_of ''system'' r = [campaigns_system_prompt]"
    "\<forall>r \<in> set (issued w (phase_quality svc self w)).
      contents_of ''system'' r = [quality_system_prompt]"
    by (auto simp: phase_market_research_issued phase_customer_analysis_issued
        phase_strategy_issued phase_campaigns_issued phase_quality_issued mk_request_def
        contents_of_def split: sum.splits)
  from r p sublist_market_research_system_prompt sublist_strategy_system_prompt
  show ?thesis by blast
qed

text \<open>
  Claim C6. The product name supplied at construction becomes the product name of the object
  (when the configuration is valid), and the system prompts of phase 1 and of phase 3 contain
  it as a contiguous substring, for every product name: they are the fixed texts of the
  source with the name in the hole. With the product name \<^verbatim>\<open>Widget X\<close> the system prompt
  of phase 1 contains \<^verbatim>\<open>Widget X\<close>. Every request of phases 2, 4 and 5 carries as its one
  system message a constant text, written out below, in which the product name does not
  occur as a parameter. In a run, and in the execution of the whole pipeline built for the
  name \<open>pn\<close>, the system messages are, in order, the first \<open>n\<close> of these five texts.
\<close>

theorem product_name_in_system_prompts_of_phases_1_and_3:
  "sublist pn (market_research_system_prompt pn) \<and>
   sublist pn (strategy_system_prompt pn) \<and>
   sublist ''Widget X'' (market_research_system_prompt ''Widget X'') \<and>
   map (contents_of ''system'') (issued w (phase_market_research svc self w)) =
     [[market_research_system_prompt (product_name self)]] \<and>
   (\<forall>r \<in> set (issued w (phase_customer_analysis svc self w)).
      contents_of ''system'' r = [customer_analysis_system_prompt]) \<and>
   (\<forall>r \<in> set (issued w (phase_strategy svc self w)).
      contents_of ''system'' r = [strategy_system_prompt (product_name self)]) \<and>
   (\<forall>r \<in> set (issued w (phase_campaigns svc self w)).
      contents_of ''system'' r = [campaigns_system_prompt]) \<and>
   (\<forall>r \<in> set (issued w (phase_quality svc self w)).
      contents_of ''system'' r = [quality_system_prompt]) \<and>
   (\<exists>n. 1 \<le> n \<and> n \<le> 5 \<and> (fst (run svc self w) = None \<longrightarrow> n = 5) \<and>
      map (contents_of ''system'') (issued w (run svc self w)) =
        take n [[market_research_system_prompt (product_name self)],
                [customer_analysis_system_prompt],
                [strategy_system_prompt (product_name self)],
                [campaigns_system_prompt],
                [quality_system_prompt]]) \<and>
   market_research_system_prompt pn =
     ''\<newline>You are a senior market research analyst.\<newline>Analyze the wearable technology market for the product: ''
     @ pn @
     ''.\<newline>\<newline>Provide:\<newline>- Top 3 competitors\<newline>- Their positioning\<newline>- Pricing\<newline>- Key features\<newline>- Market trends\<newline>Limit to 150''
     @ [CHR 0xE2, CHR 0x80, CHR 0x93] @ ''200 words.\<newline>'' \<and>
   strategy_system_prompt pn =
     ''\<newline>You are a marketing strategist.\<newline>Create a marketing strategy for: ''
     @ pn @
     ''\<newline>\<newline>Include:\<newline>- Positioning statement\<newline>- Value proposition\<newline>- Key messaging pillars\<newline>- Channels to target\<newline>- Pricing strategy\<newline>- Brand voice direction\<newline>\<newline>Limit to 200 words.\<newline>'' \<and>
   customer_analysis_system_prompt =
     ''\<newline>You are a consumer behavior expert.\<newline>Based on the market research, identify:\<newline>\<newline>- Target customer segments\<newline>- User pain points\<newline>- Motivations\<newline>- Purchase triggers\<newline>- Unmet needs\<newline>\<newline>Limit to 150 words.\<newline>'' \<and>
   campaigns_system_prompt =
     ''\<newline>You are a creative campaign director.\<newline>Design 3 marketing campaigns:\<newline>\<newline>1. Digital campaign\<newline>2. Influencer campaign\<newline>3. Content/SEO campaign\<newline>\<newline>Include:\<newline>- Goal\<newline>- Target channels\<newline>- Creative concept\<newline>- KPIs\<newline>Keep each campaign short and crisp.\<newline>'' \<and>
   quality_system_prompt =
     ''\<newline>You are a quality editor. Improve clarity, flow, and formatting.\<newline>Combine all sections into a polished executive summary.\<newline>Max 250 words.\<newline>'' \<and>
   (validate_setup Config \<longrightarrow>
      (\<exists>s. init Config (Some pn) w = (Inr s, w) \<and> product_name s = pn)) \<and>
   (validate_setup Config \<longrightarrow>
      (\<exists>n. 1 \<le> n \<and> n \<le> 5 \<and>
         (fst (workflow_main Config svc (Some pn) w) = None \<longrightarrow> n = 5) \<and>
         map (contents_of ''system'')
           (drop (length (sent w)) (sent (snd (snd (workflow_main Config svc (Some pn) w))))) =
         take n [[market_research_system_prompt pn],
                [customer_analysis_system_prompt],
                [strategy_system_prompt pn],
                [campaigns_system_prompt],
                [quality_system_prompt]]))"
proof -
  let ?self = "\<lparr>client = (API_KEY Config, API_BASE Config), outputs = [],
           model = OPENAI_MODEL Config, product_name = pn\<rparr>"
  have lit: "market_research_system_prompt pn =
     ''\<newline>You are a senior market research analyst.\<newline>Analyze the wearable technology market for the product: ''
     @ pn @
     ''.\<newline>\<newline>Provide:\<newline>- Top 3 competitors\<newline>- Their positioning\<newline>- Pricing\<newline>- Key features\<newline>- Market trends\<newline>Limit to 150''
     @ [CHR 0xE2, CHR 0x80, CHR 0x93] @ ''200 words.\<newline>''"
    "strategy_system_prompt pn =
     ''\<newline>You are a marketing strategist.\<newline>Create a marketing strategy for: ''
     @ pn @
     ''\<newline>\<newline>Include:\<newline>- Positioning statement\<newline>- Value proposition\<newline>- Key messaging pillars\<newline>- Channels to target\<newline>- Pricing strategy\<newline>- Brand voice direction\<newline>\<newline>Limit to 200 words.\<newline>''"
    "customer_analysis_system_prompt =
     ''\<newline>You are a consumer behavior expert.\<newline>Based on the market research, identify:\<newline>\<newline>- Target customer segments\<newline>- User pain points\<newline>- Motivations\<newline>- Purchase triggers\<newline>- Unmet needs\<newline>\<newline>Limit to 150 words.\<newline>''"
    "campaigns_system_prompt =
     ''\<newline>You are a creative campaign director.\<newline>Design 3 marketing campaigns:\<newline>\<newline>1. Digital campaign\<newline>2. Influencer campaign\<newline>3. Content/SEO campaign\<newline>\<newline>Include:\<newline>- Goal\<newline>- Target channels\<newline>- Creative concept\<newline>- KPIs\<newline>Keep each campaign short and crisp.\<newline>''"
    "quality_system_prompt =
     ''\<newline>You are a quality editor. Improve clarity, flow, and formatting.\<newline>Combine all sections into a polished executive summary.\<newline>Max 250 words.\<newline>''"
    by (simp_all only: market_research_system_prompt_def strategy_system_prompt_def
        customer_analysis_system_prompt_def campaigns_system_prompt_def quality_system_prompt_def)
  have i: "\<exists>s. init Config (Some pn) w = (Inr s, w) \<and> product_name s = pn"
    if v: "validate_setup Config"
    using init_ok[OF v, of "Some pn" w] by simp
  have m: "\<exists>n. 1 \<le> n \<and> n \<le> 5 \<and>
         (fst (workflow_main Config svc (Some pn) w) = None \<longrightarrow> n = 5) \<and>
         map (contents_of ''system'')
           (drop (length (sent w)) (sent (snd (snd (workflow_main Config svc (Some pn) w))))) =
         take n [[market_research_system_prompt pn],
                [customer_analysis_system_prompt],
                [strategy_system_prompt pn],
                [campaigns_system_prompt],
                [quality_system_prompt]]"
    if v: "validate_setup Config"
  proof -
    have wm: "workflow_main Config svc (Some pn) w =
        (fst (run svc ?self w), Some (fst (snd (run svc ?self w))), snd (snd (run svc ?self w)))"
      by (simp add: workflow_main_def init_ok[OF v] split: prod.splits)
    from system_prompts_parts[of pn w svc ?self, THEN conjunct2, THEN conjunct2, THEN conjunct2,
        THEN conjunct2, THEN conjunct2, THEN conjunct2, THEN conjunct2, THEN conjunct2]
    show ?thesis unfolding wm by (simp add: issued_def)
  qed
  have parts: "sublist pn (market_research_system_prompt pn) \<and>
   sublist pn (strategy_system_prompt pn) \<and>
   sublist ''Widget X'' (market_research_system_prompt ''Widget X'') \<and>
   map (contents_of ''system'') (issued w (phase_market_research svc self w)) =
     [[market_research_system_prompt (product_name self)]] \<and>
   (\<forall>r \<in> set (issued w (phase_customer_analysis svc self w)).
      contents_of ''system'' r = [customer_analysis_system_prompt]) \<and>
   (\<forall>r \<in> set (issued w (phase_strategy svc self w)).
      contents_of ''system'' r = [strategy_system_prompt (product_name self)]) \<and>
   (\<forall>r \<in> set (issued w (phase_campaigns svc self w)).
      contents_of ''system'' r = [campaigns_system_prompt]) \<and>
   (\<forall>r \<in> set (issued w (phase_quality svc self w)).
      contents_of ''system'' r = [quality_system_prompt]) \<and>
   (\<exists>n. 1 \<le> n \<and> n \<le> 5 \<and> (fst (run svc self w) = None \<longrightarrow> n = 5) \<and>
      map (contents_of ''system'') (issued w (run svc self w)) =
        take n [[market_research_system_prompt (product_name self)],
                [customer_analysis_system_prompt],
                [strategy_system_prompt (product_name self)],
                [campaigns_system_prompt],
                [quality_system_prompt]])"
    by (rule system_prompts_parts)
  from parts lit i m show ?thesis by (intro conjI impI) blast+
qed

theorem product_name_in_system_prompts_of_phases_1_and_3_witness:
  "validate_setup config_ok \<and>
   (\<exists>s. init config_ok (Some ''Widget X'') (world0 five_answers) = (Inr s, world0 five_answers) \<and>
        product_name s = ''Widget X'') \<and>
   fst (workflow_main config_ok scripted_service (Some ''Widget X'') (world0 five_answers)) = None \<and>
   map (contents_of ''system'')
       (sent (snd (snd (workflow_main config_ok scripted_service (Some ''Widget X'')
          (world0 five_answers))))) =
     [[market_research_system_prompt ''Widget X''],
      [customer_analysis_system_prompt],
      [strategy_system_prompt ''Widget X''],
      [campaigns_system_prompt],
      [quality_system_prompt]] \<and>
   sublist ''Widget X'' (market_research_system_prompt ''Widget X'') \<and>
   market_research_system_prompt ''Widget X'' =
     ''\<newline>You are a senior market research analyst.\<newline>Analyze the wearable technology market for the product: ''
     @ ''Widget X'' @
     ''.\<newline>\<newline>Provide:\<newline>- Top 3 competitors\<newline>- Their positioning\<newline>- Pricing\<newline>- Key features\<newline>- Market trends\<newline>Limit to 150''
     @ [CHR 0xE2, CHR 0x80, CHR 0x93] @ ''200 words.\<newline>''"
proof -
  let ?w = "world0 five_answers"
  have c: "validate_setup config_ok" by (simp add: config_ok_def)
  have wi: "init config_ok (Some ''Widget X'') ?w = (Inr widget, ?w)"
    by (simp add: init_def config_ok_def widget_def)
  have ok: "fst (workflow_main config_ok scripted_service (Some ''Widget X'') ?w) = None"
  proof -
    have "workflow_main config_ok scripted_service (Some ''Widget X'') ?w =
        (fst (run scripted_service widget ?w), Some (fst (snd (run scripted_service widget ?w))),
         snd (snd (run scripted_service widget ?w)))"
      by (simp add: workflow_main_def wi split: prod.splits)
    with widget_run_ok show ?thesis by simp
  qed
  note t = product_name_in_system_prompts_of_phases_1_and_3[of "''Widget X''" ?w
      scripted_service widget config_ok]
  note s1 = t[THEN conjunct2, THEN conjunct2, THEN conjunct1]
  note rest = t[THEN conjunct2, THEN conjunct2, THEN conjunct2, THEN conjunct2, THEN conjunct2,
      THEN conjunct2, THEN conjunct2, THEN conjunct2, THEN conjunct2]
  note l1 = rest[THEN conjunct1]
  note i1 = rest[THEN conjunct2, THEN conjunct2, THEN conjunct2, THEN conjunct2, THEN conjunct2,
      THEN conjunct1, rule_format, OF c]
  note m1 = rest[THEN conjunct2, THEN conjunct2, THEN conjunct2, THEN conjunct2, THEN conjunct2,
      THEN conjunct2, rule_format, OF c]
  from m1 obtain n where n: "fst (workflow_main config_ok scripted_service (Some ''Widget X'') ?w)
        = None \<longrightarrow> n = 5"
    and e: "map (contents_of ''system'')
           (drop (length (sent ?w)) (sent (snd (snd (workflow_main config_ok scripted_service
              (Some ''Widget X'') ?w))))) =
         take n [[market_research_system_prompt ''Widget X''],
                [customer_analysis_system_prompt],
                [strategy_system_prompt ''Widget X''],
                [campaigns_system_prompt],
                [quality_system_prompt]]"
    by (elim exE conjE) (rule that)
  from n ok have n5: "n = 5" by simp
  have z: "length (sent ?w) = 0" by (simp add: world0_def)
  have e': "map (contents_of ''system'')
       (sent (snd (snd (workflow_main config_ok scripted_service (Some ''Widget X'') ?w)))) =
     [[market_research_system_prompt ''Widget X''],
      [customer_analysis_system_prompt],
      [strategy_system_prompt ''Widget X''],
      [campaigns_system_prompt],
      [quality_system_prompt]]"
    using e unfolding n5 z by simp
  from c i1 ok e' s1 l1 show ?thesis by (intro conjI)
qed

lemma sublist_in_append:
  "sublist xs (a @ xs @ b)"
  "sublist xs (a @ u @ c @ xs @ b)"
  "sublist xs (a @ u @ c @ v @ d @ xs @ b)"
  "sublist xs (a @ u @ c @ v @ d @ x @ e @ xs @ b)"
proof -
  show "sublist xs (a @ xs @ b)" by (rule sublist_appendI)
  have "sublist xs ((a @ u @ c) @ xs @ b)" by (rule sublist_appendI)
  then show "sublist xs (a @ u @ c @ xs @ b)" by simp
  have "sublist xs ((a @ u @ c @ v @ d) @ xs @ b)" by (rule sublist_appendI)
  then show "sublist xs (a @ u @ c @ v @ d @ xs @ b)" by simp
  have "sublist xs ((a @ u @ c @ v @ d @ x @ e) @ xs @ b)" by (rule sublist_appendI)
  then show "sublist xs (a @ u @ c @ v @ d @ x @ e @ xs @ b)" by simp
qed

text \<open>
  Claim C2. The user prompt of each phase is a fixed template filled with outputs of earlier
  phases only: phase 1 uses none; phase 2 reads the entry of phase 1; phase 3 the entries of
  phases 1 and 2; phase 4 the entry of phase 3; phase 5 the entries of phases 1 to 4. (A phase
  that does not find an entry it reads raises \<^verbatim>\<open>KeyError\<close> and sends nothing.) In a run
  there are values \<open>o1\<close>, ..., \<open>o5\<close> such that the first \<open>m\<close> phases have stored them under
  their keys and the user prompts sent are the first \<open>n\<close> of the five templates filled with
  them; no prompt depends on the output of its own or of a later phase. The templates are
  written out: each prompt is the fixed text of the source with the text of the outputs it
  reads (\<^verbatim>\<open>None\<close> for a missing content) in the holes, so every output a phase reads
  occurs in its prompt as a contiguous substring.
\<close>

theorem user_prompts_depend_on_earlier_outputs_only:
  "map (contents_of ''user'') (issued w (phase_market_research svc self w)) =
     [[''Provide competitor analysis.'']] \<and>
   map (contents_of ''user'') (issued w (phase_customer_analysis svc self w)) =
     (case getitem (outputs self) ''market_research'' of Inl e \<Rightarrow> [] | Inr o1 \<Rightarrow>
        [[customer_analysis_user_prompt o1]]) \<and>
   map (contents_of ''user'') (issued w (phase_strategy svc self w)) =
     (case getitem (outputs self) ''market_research'' of Inl e \<Rightarrow> [] | Inr o1 \<Rightarrow>
      case getitem (outputs self) ''customer_analysis'' of Inl e \<Rightarrow> [] | Inr o2 \<Rightarrow>
        [[strategy_user_prompt o1 o2]]) \<and>
   map (contents_of ''user'') (issued w (phase_campaigns svc self w)) =
     (case getitem (outputs self) ''strategy'' of Inl e \<Rightarrow> [] | Inr o3 \<Rightarrow>
        [[campaigns_user_prompt o3]]) \<and>
   map (contents_of ''user'') (issued w (phase_quality svc self w)) =
     (case getitem (outputs self) ''market_research'' of Inl e \<Rightarrow> [] | Inr o1 \<Rightarrow>
      case getitem (outputs self) ''customer_analysis'' of Inl e \<Rightarrow> [] | Inr o2 \<Rightarrow>
      case getitem (outputs self) ''strategy'' of Inl e \<Rightarrow> [] | Inr o3 \<Rightarrow>
      case getitem (outputs self) ''campaigns'' of Inl e \<Rightarrow> [] | Inr o4 \<Rightarrow>
        [[quality_user_prompt o1 o2 o3 o4]]) \<and>
   (\<exists>n m o1 o2 o3 o4 o5.
      1 \<le> n \<and> n \<le> 5 \<and> m \<le> n \<and> n \<le> Suc m \<and>
      (fst (run svc self w) = None \<longleftrightarrow> m = 5) \<and>
      outputs (fst (snd (run svc self w))) =
        setitems (outputs self)
          (take m [(''market_research'', o1), (''customer_analysis'', o2), (''strategy'', o3),
                   (''campaigns'', o4), (''quality'', o5)]) \<and>
      map (contents_of ''user'') (issued w (run svc self w)) =
        take n [[''Provide competitor analysis.''],
                [customer_analysis_user_prompt o1],
                [strategy_user_prompt o1 o2],
                [campaigns_user_prompt o3],
                [quality_user_prompt o1 o2 o3 o4]]) \<and>
   customer_analysis_user_prompt v1 =
     ''Here is the market research:\<newline>'' @ py_str v1 @ ''\<newline>\<newline>Analyze customers.'' \<and>
   strategy_user_prompt v1 v2 =
     ''\<newline>Market Research:\<newline>'' @ py_str v1 @ ''\<newline>\<newline>Customer Insights:\<newline>'' @ py_str v2 @ ''\<newline>'' \<and>
   campaigns_user_prompt v3 =
     ''\<newline>Based on the marketing strategy:\<newline>\<newline>'' @ py_str v3 @
     ''\<newline>\<newline>Generate the 3 campaigns.\<newline>'' \<and>
   quality_user_prompt v1 v2 v3 v4 =
     ''\<newline>Market Research:\<newline>'' @ py_str v1 @ ''\<newline>\<newline>Customer Insights:\<newline>'' @ py_str v2 @
     ''\<newline>\<newline>Marketing Strategy:\<newline>'' @ py_str v3 @ ''\<newline>\<newline>Campaigns:\<newline>'' @ py_str v4 @ ''\<newline>'' \<and>
   py_str (Some t) = t \<and> py_str None = ''None'' \<and>
   sublist (py_str v1) (customer_analysis_user_prompt v1) \<and>
   sublist (py_str v1) (strategy_user_prompt v1 v2) \<and>
   sublist (py_str v2) (strategy_user_prompt v1 v2) \<and>
   sublist (py_str v3) (campaigns_user_prompt v3) \<and>
   sublist (py_str v1) (quality_user_prompt v1 v2 v3 v4) \<and>
   sublist (py_str v2) (quality_user_prompt v1 v2 v3 v4) \<and>
   sublist (py_str v3) (quality_user_prompt v1 v2 v3 v4) \<and>
   sublist (py_str v4) (quality_user_prompt v1 v2 v3 v4)"
proof -
  from run_issued[of svc self w] obtain n m o1 o2 o3 o4 o5 where
    b: "1 \<le> n" "n \<le> 5" "m \<le> n" "n \<le> Suc m" "fst (run svc self w) = None \<longleftrightarrow> m = 5"
    and o: "fst (snd (run svc self w)) =
       self\<lparr>outputs := setitems (outputs self) (take m (expected_outputs o1 o2 o3 o4 o5))\<rparr>"
    and i: "issued w (run svc self w) = take n (expected_requests self o1 o2 o3 o4)"
    by auto
  have u: "map (contents_of ''user'') (issued w (run svc self w)) =
        take n [[''Provide competitor analysis.''],
                [customer_analysis_user_prompt o1],
                [strategy_user_prompt o1 o2],
                [campaigns_user_prompt o3],
                [quality_user_prompt o1 o2 o3 o4]]"
    unfolding i take_map[symmetric] expected_requests_user market_research_user_prompt_def ..
  have d: "outputs (fst (snd (run svc self w))) =
        setitems (outputs self)
          (take m [(''market_research'', o1), (''customer_analysis'', o2), (''strategy'', o3),
                   (''campaigns'', o4), (''quality'', o5)])"
    unfolding o by (simp add: expected_outputs_def)
  have r: "\<exists>n m o1 o2 o3 o4 o5.
      1 \<le> n \<and> n \<le> 5 \<and> m \<le> n \<and> n \<le> Suc m \<and>
      (fst (run svc self w) = None \<longleftrightarrow> m = 5) \<and>
      outputs (fst (snd (run svc self w))) =
        setitems (outputs self)
          (take m [(''market_research'', o1), (''customer_analysis'', o2), (''strategy'', o3),
                   (''campaigns'', o4), (''quality'', o5)]) \<and>
      map (contents_of ''user'') (issued w (run svc self w)) =
        take n [[''Provide competitor analysis.''],
                [customer_analysis_user_prompt o1],
                [strategy_user_prompt o1 o2],
                [campaigns_user_prompt o3],
                [quality_user_prompt o1 o2 o3 o4]]"
    by (rule exI7[where a = n and b = m and c = o1 and d = o2 and e = o3 and f = o4 and g = o5])
       (intro conjI b d u)
  have p: "map (contents_of ''user'') (issued w (phase_market_research svc self w)) =
     [[''Provide competitor analysis.'']]"
   "map (contents_of ''user'') (issued w (phase_customer_analysis svc self w)) =
     (case getitem (outputs self) ''market_research'' of Inl e \<Rightarrow> [] | Inr o1 \<Rightarrow>
        [[customer_analysis_user_prompt o1]])"
   "map (contents_of ''user'') (issued w (phase_strategy svc self w)) =
     (case getitem (outputs self) ''market_research'' of Inl e \<Rightarrow> [] | Inr o1 \<Rightarrow>
      case getitem (outputs self) ''customer_analysis'' of Inl e \<Rightarrow> [] | Inr o2 \<Rightarrow>
        [[strategy_user_prompt o1 o2]])"
   "map (contents_of ''user'') (issued w (phase_campaigns svc self w)) =
     (case getitem (outputs self) ''strategy'' of Inl e \<Rightarrow> [] | Inr o3 \<Rightarrow>
        [[campaigns_user_prompt o3]])"
   "map (contents_of ''user'') (issued w (phase_quality svc self w)) =
     (case getitem (outputs self) ''market_research'' of Inl e \<Rightarrow> [] | Inr o1 \<Rightarrow>
      case getitem (outputs self) ''customer_analysis'' of Inl e \<Rightarrow> [] | Inr o2 \<Rightarrow>
      case getitem (outputs self) ''strategy'' of Inl e \<Rightarrow> [] | Inr o3 \<Rightarrow>
      case getitem (outputs self) ''campaigns'' of Inl e \<Rightarrow> [] | Inr o4 \<Rightarrow>
        [[quality_user_prompt o1 o2 o3 o4]])"
    by (simp_all add: phase_market_research_issued phase_customer_analysis_issued
        phase_strategy_issued phase_campaigns_issued phase_quality_issued mk_request_def
        contents_of_def market_research_user_prompt_def split: sum.splits)
  have x: "customer_analysis_user_prompt v1 =
     ''Here is the market research:\<newline>'' @ py_str v1 @ ''\<newline>\<newline>Analyze customers.''"
   "strategy_user_prompt v1 v2 =
     ''\<newline>Market Research:\<newline>'' @ py_str v1 @ ''\<newline>\<newline>Customer Insights:\<newline>'' @ py_str v2 @ ''\<newline>''"
   "campaigns_user_prompt v3 =
     ''\<newline>Based on the marketing strategy:\<newline>\<newline>'' @ py_str v3 @
     ''\<newline>\<newline>Generate the 3 campaigns.\<newline>''"
   "quality_user_prompt v1 v2 v3 v4 =
     ''\<newline>Market Research:\<newline>'' @ py_str v1 @ ''\<newline>\<newline>Customer Insights:\<newline>'' @ py_str v2 @
     ''\<newline>\<newline>Marketing Strategy:\<newline>'' @ py_str v3 @ ''\<newline>\<newline>Campaigns:\<newline>'' @ py_str v4 @ ''\<newline>''"
   "py_str (Some t) = t" "py_str None = ''None''"
    by (simp_all only: customer_analysis_user_prompt_def strategy_user_prompt_def
        campaigns_user_prompt_def quality_user_prompt_def py_str_def option.case)
  have y: "sublist (py_str v1) (customer_analysis_user_prompt v1)"
    "sublist (py_str v1) (strategy_user_prompt v1 v2)"
    "sublist (py_str v2) (strategy_user_prompt v1 v2)"
    "sublist (py_str v3) (campaigns_user_prompt v3)"
    "sublist (py_str v1) (quality_user_prompt v1 v2 v3 v4)"
    "sublist (py_str v2) (quality_user_prompt v1 v2 v3 v4)"
    "sublist (py_str v3) (quality_user_prompt v1 v2 v3 v4)"
    "sublist (py_str v4) (quality_user_prompt v1 v2 v3 v4)"
    unfolding customer_analysis_user_prompt_def strategy_user_prompt_def
        campaigns_user_prompt_def quality_user_prompt_def
    by (rule sublist_in_append)+
  from p r x y show ?thesis by (intro conjI)
qed

theorem user_prompts_depend_on_earlier_outputs_only_witness:
  "fst (run scripted_service widget (world0 five_answers)) = None \<and>
   map (contents_of ''user'')
       (issued (world0 five_answers) (run scripted_service widget (world0 five_answers))) =
     [[''Provide competitor analysis.''],
      [customer_analysis_user_prompt (Some ''R1'')],
      [strategy_user_prompt (Some ''R1'') (Some ''R2'')],
      [campaigns_user_prompt (Some ''R3'')],
      [quality_user_prompt (Some ''R1'') (Some ''R2'') (Some ''R3'') (Some ''R4'')]] \<and>
   map (contents_of ''user'')
       (issued (world0 five_answers) (run scripted_service widget (world0 five_answers))) =
     [[''Provide competitor analysis.''],
      [''Here is the market research:\<newline>R1\<newline>\<newline>Analyze customers.''],
      [''\<newline>Market Research:\<newline>R1\<newline>\<newline>Customer Insights:\<newline>R2\<newline>''],
      [''\<newline>Based on the marketing strategy:\<newline>\<newline>R3\<newline>\<newline>Generate the 3 campaigns.\<newline>''],
      [''\<newline>Market Research:\<newline>R1\<newline>\<newline>Customer Insights:\<newline>R2\<newline>\<newline>Marketing Strategy:\<newline>R3\<newline>\<newline>Campaigns:\<newline>R4\<newline>'']]"
proof -
  let ?r = "run scripted_service widget (world0 five_answers)"
  have ok: "fst ?r = None" by (rule widget_run_ok)
  note t = user_prompts_depend_on_earlier_outputs_only[of "world0 five_answers"
      scripted_service widget,
      THEN conjunct2, THEN conjunct2, THEN conjunct2, THEN conjunct2, THEN conjunct2,
      THEN conjunct1]
  from t obtain n m o1 o2 o3 o4 o5 where
    b: "1 \<le> n" "n \<le> 5" "m \<le> n" "n \<le> Suc m" "fst ?r = None \<longleftrightarrow> m = 5"
    and d: "outputs (fst (snd ?r)) =
        setitems (outputs widget)
          (take m [(''market_research'', o1), (''customer_analysis'', o2), (''strategy'', o3),
                   (''campaigns'', o4), (''quality'', o5)])"
    and u: "map (contents_of ''user'') (issued (world0 five_answers) ?r) =
        take n [[''Provide competitor analysis.''],
                [customer_analysis_user_prompt o1],
                [strategy_user_prompt o1 o2],
                [campaigns_user_prompt o3],
                [quality_user_prompt o1 o2 o3 o4]]"
    by (elim exE conjE) (rule that)
  from b(5) ok have m: "m = 5" by simp
  with b(2,3) have n: "n = 5" by simp
  have e: "[(''market_research'', Some ''R1''), (''customer_analysis'', Some ''R2''),
      (''strategy'', Some ''R3''), (''campaigns'', Some ''R4''), (''quality'', Some ''R5'')] =
      [(''market_research'', o1), (''customer_analysis'', o2), (''strategy'', o3),
                   (''campaigns'', o4), (''quality'', o5)]"
    using d unfolding m widget_run_outputs by (simp add: setitems_def widget_def)
  then have o: "o1 = Some ''R1''" "o2 = Some ''R2''" "o3 = Some ''R3''" "o4 = Some ''R4''"
    by simp_all
  note x = user_prompts_depend_on_earlier_outputs_only[of "world0 five_answers"
      scripted_service widget "Some ''R1''" "Some ''R2''" "Some ''R3''" "Some ''R4''" "''R1''",
      THEN conjunct2, THEN conjunct2, THEN conjunct2, THEN conjunct2, THEN conjunct2,
      THEN conjunct2]
  have e: "customer_analysis_user_prompt (Some ''R1'') =
      ''Here is the market research:\<newline>R1\<newline>\<newline>Analyze customers.''"
    "strategy_user_prompt (Some ''R1'') (Some ''R2'') =
      ''\<newline>Market Research:\<newline>R1\<newline>\<newline>Customer Insights:\<newline>R2\<newline>''"
    "campaigns_user_prompt (Some ''R3'') =
      ''\<newline>Based on the marketing strategy:\<newline>\<newline>R3\<newline>\<newline>Generate the 3 campaigns.\<newline>''"
    "quality_user_prompt (Some ''R1'') (Some ''R2'') (Some ''R3'') (Some ''R4'') =
      ''\<newline>Market Research:\<newline>R1\<newline>\<newline>Customer Insights:\<newline>R2\<newline>\<newline>Marketing Strategy:\<newline>R3\<newline>\<newline>Campaigns:\<newline>R4\<newline>''"
    using x by (simp_all add: py_str_def)
  have a: "map (contents_of ''user'') (issued (world0 five_answers) ?r) =
     [[''Provide competitor analysis.''],
      [customer_analysis_user_prompt (Some ''R1'')],
      [strategy_user_prompt (Some ''R1'') (Some ''R2'')],
      [campaigns_user_prompt (Some ''R3'')],
      [quality_user_prompt (Some ''R1'') (Some ''R2'') (Some ''R3'') (Some ''R4'')]]"
    using u unfolding n o by simp
  from a have b: "map (contents_of ''user'') (issued (world0 five_answers) ?r) =
     [[''Provide competitor analysis.''],
      [''Here is the market research:\<newline>R1\<newline>\<newline>Analyze customers.''],
      [''\<newline>Market Research:\<newline>R1\<newline>\<newline>Customer Insights:\<newline>R2\<newline>''],
      [''\<newline>Based on the marketing strategy:\<newline>\<newline>R3\<newline>\<newline>Generate the 3 campaigns.\<newline>''],
      [''\<newline>Market Research:\<newline>R1\<newline>\<newline>Customer Insights:\<newline>R2\<newline>\<newline>Marketing Strategy:\<newline>R3\<newline>\<newline>Campaigns:\<newline>R4\<newline>'']]"
    unfolding e .
  from ok a b show ?thesis by (intro conjI)
qed

lemma getitem_present: "k \<in> set (keys d) \<Longrightarrow> \<exists>v. getitem d k = Inr v"
  by (induction d) (auto simp: getitem_def keys_def)

lemma adds_one_entryI:
  assumes "key \<notin> set (keys (outputs self))"
    and "(\<exists>x. e = Some x) \<and> self' = self \<or>
         e = None \<and> (\<exists>c. self' = self\<lparr>outputs := setitem (outputs self) key c\<rparr>)"
  shows "adds_one_entry key self (e, self', w')"
  using assms by (auto simp: adds_one_entry_def setitem_fresh keys_def)

lemma outputs_grow_parts:
  "(keys (outputs self) = [] \<longrightarrow>
      adds_one_entry ''market_research'' self (phase_market_research svc self w)) \<and>
   (keys (outputs self) = [''market_research''] \<longrightarrow>
      adds_one_entry ''customer_analysis'' self (phase_customer_analysis svc self w)) \<and>
   (keys (outputs self) = [''market_research'', ''customer_analysis''] \<longrightarrow>
      adds_one_entry ''strategy'' self (phase_strategy svc self w)) \<and>
   (keys (outputs self) = [''market_research'', ''customer_analysis'', ''strategy''] \<longrightarrow>
      adds_one_entry ''campaigns'' self (phase_campaigns svc self w)) \<and>
   (keys (outputs self) =
      [''market_research'', ''customer_analysis'', ''strategy'', ''campaigns''] \<longrightarrow>
      adds_one_entry ''quality'' self (phase_quality svc self w)) \<and>
   (outputs self = [] \<longrightarrow>
      (\<exists>m o1 o2 o3 o4 o5. m \<le> 5 \<and> (fst (run svc self w) = None \<longleftrightarrow> m = 5) \<and>
         outputs (fst (snd (run svc self w))) =
           take m [(''market_research'', o1), (''customer_analysis'', o2), (''strategy'', o3),
                   (''campaigns'', o4), (''quality'', o5)]))"
proof (intro conjI impI)
  assume k: "keys (outputs self) = []"
  obtain e self' w' where p: "phase_market_research svc self w = (e, self', w')"
    using prod_cases3 by blast
  from phase_market_research_result[OF p] k
  show "adds_one_entry ''market_research'' self (phase_market_research svc self w)"
    unfolding p by (intro adds_one_entryI) simp_all
next
  assume k: "keys (outputs self) = [''market_research'']"
  then obtain o1 where g: "getitem (outputs self) ''market_research'' = Inr o1"
    using getitem_present[of "''market_research''" "outputs self"] by auto
  obtain e self' w' where p: "phase_customer_analysis svc self w = (e, self', w')"
    using prod_cases3 by blast
  from phase_customer_analysis_result[OF g p] k
  show "adds_one_entry ''customer_analysis'' self (phase_customer_analysis svc self w)"
    unfolding p by (intro adds_one_entryI) simp_all
next
  assume k: "keys (outputs self) = [''market_research'', ''customer_analysis'']"
  then obtain o1 o2 where g: "getitem (outputs self) ''market_research'' = Inr o1"
      "getitem (outputs self) ''customer_analysis'' = Inr o2"
    using getitem_present[of "''market_research''" "outputs self"]
      getitem_present[of "''customer_analysis''" "outputs self"] by auto
  obtain e self' w' where p: "phase_strategy svc self w = (e, self', w')"
    using prod_cases3 by blast
  from phase_strategy_result[OF g p] k
  show "adds_one_entry ''strategy'' self (phase_strategy svc self w)"
    unfolding p by (intro adds_one_entryI) simp_all
next
  assume k: "keys (outputs self) = [''market_research'', ''customer_analysis'', ''strategy'']"
  then obtain o3 where g: "getitem (outputs self) ''strategy'' = Inr o3"
    using getitem_present[of "''strategy''" "outputs self"] by auto
  obtain e self' w' where p: "phase_campaigns svc self w = (e, self', w')"
    using prod_cases3 by blast
  from phase_campaigns_result[OF g p] k
  show "adds_one_entry ''campaigns'' self (phase_campaigns svc self w)"
    unfolding p by (intro adds_one_entryI) simp_all
next
  assume k: "keys (outputs self) =
      [''market_research'', ''customer_analysis'', ''strategy'', ''campaigns'']"
  then obtain o1 o2 o3 o4 where g: "getitem (outputs self) ''market_research'' = Inr o1"
      "getitem (outputs self) ''customer_analysis'' = Inr o2"
      "getitem (outputs self) ''strategy'' = Inr o3"
      "getitem (outputs self) ''campaigns'' = Inr o4"
    using getitem_present[of "''market_research''" "outputs self"]
      getitem_present[of "''customer_analysis''" "outputs self"]
      getitem_present[of "''strategy''" "outputs self"]
      getitem_present[of "''campaigns''" "outputs self"] by auto
  obtain e self' w' where p: "phase_quality svc self w = (e, self', w')"
    using prod_cases3 by blast
  from phase_quality_result[OF g p] k
  show "adds_one_entry ''quality'' self (phase_quality svc self w)"
    unfolding p by (intro adds_one_entryI) simp_all
next
  assume f: "outputs self = []"
  from run_issued[of svc self w] obtain n m o1 o2 o3 o4 o5 where
    b: "n \<le> 5" "m \<le> n" "fst (run svc self w) = None \<longleftrightarrow> m = 5"
    and o: "fst (snd (run svc self w)) =
       self\<lparr>outputs := setitems (outputs self) (take m (expected_outputs o1 o2 o3 o4 o5))\<rparr>"
    by (elim exE conjE)
  from b have m: "m \<in> {0, 1, 2, 3, 4, 5}" by auto
  have d: "setitems [] (take m (expected_outputs o1 o2 o3 o4 o5)) =
         take m [(''market_research'', o1), (''customer_analysis'', o2), (''strategy'', o3),
                   (''campaigns'', o4), (''quality'', o5)]"
    using m by (auto simp: setitems_def expected_outputs_def)
  have "m \<le> 5 \<and> (fst (run svc self w) = None \<longleftrightarrow> m = 5) \<and>
         outputs (fst (snd (run svc self w))) =
           take m [(''market_research'', o1), (''customer_analysis'', o2), (''strategy'', o3),
                   (''campaigns'', o4), (''quality'', o5)]"
    using b unfolding o by (simp add: f d)
  then show "\<exists>m o1 o2 o3 o4 o5. m \<le> 5 \<and> (fst (run svc self w) = None \<longleftrightarrow> m = 5) \<and>
         outputs (fst (snd (run svc self w))) =
           take m [(''market_research'', o1), (''customer_analysis'', o2), (''strategy'', o3),
                   (''campaigns'', o4), (''quality'', o5)]"
    by (intro exI)
qed

lemma andthen_if:
  "andthen r f = (if fst r \<noteq> None then r else f (fst (snd r)) (snd (snd r)))"
  by (cases r) (auto simp: andthen_def)

lemma adds_one_entry_keys:
  assumes "adds_one_entry key self r" and "fst r = None"
  shows "keys (outputs (fst (snd r))) = keys (outputs self) @ [key]"
proof -
  let ?d = "outputs self" and ?d' = "outputs (fst (snd r))"
  from assms have t: "take (length ?d) ?d' = ?d" and k: "keys (drop (length ?d) ?d') = [key]"
    by (simp_all add: adds_one_entry_def Let_def)
  have "keys ?d' = keys (take (length ?d) ?d' @ drop (length ?d) ?d')" by simp
  also have "\<dots> = keys ?d @ [key]" unfolding keys_def map_append using t k
    by (simp add: keys_def)
  finally show ?thesis .
qed

lemma adds_one_entry_prefix:
  assumes "adds_one_entry key self r" and "fst r = None"
  shows "length (outputs (fst (snd r))) = Suc (length (outputs self)) \<and>
         take (length (outputs self)) (outputs (fst (snd r))) = outputs self"
proof -
  from adds_one_entry_keys[OF assms]
  have "length (keys (outputs (fst (snd r)))) = Suc (length (keys (outputs self)))" by simp
  then have "length (outputs (fst (snd r))) = Suc (length (outputs self))"
    by (simp add: keys_def)
  moreover from assms have "take (length (outputs self)) (outputs (fst (snd r))) = outputs self"
    by (simp add: adds_one_entry_def Let_def)
  ultimately show ?thesis by simp
qed

text \<open>
  Claim C7. During a run the dictionary only grows. Started on a dictionary holding exactly the
  keys of the phases before it, each phase either returns normally, having appended exactly
  one entry under its own key, which was not present, and left every earlier entry as it was,
  or raises and leaves the dictionary unchanged. Hence a run started on the empty dictionary
  of a new object ends, after the summary step (which only prints), with the first \<open>m\<close>
  entries of the five in phase order, all five exactly when the run ends normally.

  The last two conjuncts tie the run to its phases. A run is the five phases in sequence,
  each started on the object and in the world its predecessor left, stopping at the first
  that raises; what \<^verbatim>\<open>run\<close> returns is the result of the phase that raised or, when none
  did, the object exactly as phase 5 left it, in the world \<^verbatim>\<open>print_summary\<close> printed to:
  the summary step changes no entry. And in a run of a new object every phase that is
  reached appends one entry to the dictionary its predecessor left, so an entry, once
  written, is in the dictionary unchanged at every later moment of the run.
\<close>

theorem outputs_grow_monotonically:
  "(keys (outputs self) = [] \<longrightarrow>
      adds_one_entry ''market_research'' self (phase_market_research svc self w)) \<and>
   (keys (outputs self) = [''market_research''] \<longrightarrow>
      adds_one_entry ''customer_analysis'' self (phase_customer_analysis svc self w)) \<and>
   (keys (outputs self) = [''market_research'', ''customer_analysis''] \<longrightarrow>
      adds_one_entry ''strategy'' self (phase_strategy svc self w)) \<and>
   (keys (outputs self) = [''market_research'', ''customer_analysis'', ''strategy''] \<longrightarrow>
      adds_one_entry ''campaigns'' self (phase_campaigns svc self w)) \<and>
   (keys (outputs self) =
      [''market_research'', ''customer_analysis'', ''strategy'', ''campaigns''] \<longrightarrow>
      adds_one_entry ''quality'' self (phase_quality svc self w)) \<and>
   (outputs self = [] \<longrightarrow>
      (\<exists>m o1 o2 o3 o4 o5. m \<le> 5 \<and> (fst (run svc self w) = None \<longleftrightarrow> m = 5) \<and>
         outputs (fst (snd (run svc self w))) =
           take m [(''market_research'', o1), (''customer_analysis'', o2), (''strategy'', o3),
                   (''campaigns'', o4), (''quality'', o5)])) \<and>
   (let r1 = phase_market_research svc self (run_banner self w);
        r2 = phase_customer_analysis svc (fst (snd r1)) (snd (snd r1));
        r3 = phase_strategy svc (fst (snd r2)) (snd (snd r2));
        r4 = phase_campaigns svc (fst (snd r3)) (snd (snd r3));
        r5 = phase_quality svc (fst (snd r4)) (snd (snd r4))
    in run svc self w =
         (if fst r1 \<noteq> None then r1
          else if fst r2 \<noteq> None then r2
          else if fst r3 \<noteq> None then r3
          else if fst r4 \<noteq> None then r4
          else if fst r5 \<noteq> None then r5
          else (None, fst (snd r5), print_summary (fst (snd r5)) (snd (snd r5))))) \<and>
   (outputs self = [] \<longrightarrow>
     (let r1 = phase_market_research svc self (run_banner self w);
          r2 = phase_customer_analysis svc (fst (snd r1)) (snd (snd r1));
          r3 = phase_strategy svc (fst (snd r2)) (snd (snd r2));
          r4 = phase_campaigns svc (fst (snd r3)) (snd (snd r3));
          r5 = phase_quality svc (fst (snd r4)) (snd (snd r4))
      in adds_one_entry ''market_research'' self r1 \<and>
         (fst r1 = None \<longrightarrow>
            adds_one_entry ''customer_analysis'' (fst (snd r1)) r2) \<and>
         (fst r1 = None \<and> fst r2 = None \<longrightarrow>
            adds_one_entry ''strategy'' (fst (snd r2)) r3) \<and>
         (fst r1 = None \<and> fst r2 = None \<and> fst r3 = None \<longrightarrow>
            adds_one_entry ''campaigns'' (fst (snd r3)) r4) \<and>
         (fst r1 = None \<and> fst r2 = None \<and> fst r3 = None \<and> fst r4 = None \<longrightarrow>
            adds_one_entry ''quality'' (fst (snd r4)) r5) \<and>
         (fst r1 = None \<and> fst r2 = None \<and> fst r3 = None \<and> fst r4 = None \<and>
          fst r5 = None \<longrightarrow>
            outputs (fst (snd (run svc self w))) = outputs (fst (snd r5)) \<and>
            take 4 (outputs (fst (snd (run svc self w)))) = outputs (fst (snd r4)) \<and>
            take 3 (outputs (fst (snd (run svc self w)))) = outputs (fst (snd r3)) \<and>
            take 2 (outputs (fst (snd (run svc self w)))) = outputs (fst (snd r2)) \<and>
            take 1 (outputs (fst (snd (run svc self w)))) = outputs (fst (snd r1)))))"
proof -
  let ?r1 = "phase_market_research svc self (run_banner self w)"
  let ?r2 = "phase_customer_analysis svc (fst (snd ?r1)) (snd (snd ?r1))"
  let ?r3 = "phase_strategy svc (fst (snd ?r2)) (snd (snd ?r2))"
  let ?r4 = "phase_campaigns svc (fst (snd ?r3)) (snd (snd ?r3))"
  let ?r5 = "phase_quality svc (fst (snd ?r4)) (snd (snd ?r4))"
  have run_eq: "run svc self w =
         (if fst ?r1 \<noteq> None then ?r1
          else if fst ?r2 \<noteq> None then ?r2
          else if fst ?r3 \<noteq> None then ?r3
          else if fst ?r4 \<noteq> None then ?r4
          else if fst ?r5 \<noteq> None then ?r5
          else (None, fst (snd ?r5), print_summary (fst (snd ?r5)) (snd (snd ?r5))))"
    unfolding run_andthen andthen_if by simp
  have chain: "adds_one_entry ''market_research'' self ?r1 \<and>
         (fst ?r1 = None \<longrightarrow>
            adds_one_entry ''customer_analysis'' (fst (snd ?r1)) ?r2) \<and>
         (fst ?r1 = None \<and> fst ?r2 = None \<longrightarrow>
            adds_one_entry ''strategy'' (fst (snd ?r2)) ?r3) \<and>
         (fst ?r1 = None \<and> fst ?r2 = None \<and> fst ?r3 = None \<longrightarrow>
            adds_one_entry ''campaigns'' (fst (snd ?r3)) ?r4) \<and>
         (fst ?r1 = None \<and> fst ?r2 = None \<and> fst ?r3 = None \<and> fst ?r4 = None \<longrightarrow>
            adds_one_entry ''quality'' (fst (snd ?r4)) ?r5) \<and>
         (fst ?r1 = None \<and> fst ?r2 = None \<and> fst ?r3 = None \<and> fst ?r4 = None \<and>
          fst ?r5 = None \<longrightarrow>
            outputs (fst (snd (run svc self w))) = outputs (fst (snd ?r5)) \<and>
            take 4 (outputs (fst (snd (run svc self w)))) = outputs (fst (snd ?r4)) \<and>
            take 3 (outputs (fst (snd (run svc self w)))) = outputs (fst (snd ?r3)) \<and>
            take 2 (outputs (fst (snd (run svc self w)))) = outputs (fst (snd ?r2)) \<and>
            take 1 (outputs (fst (snd (run svc self w)))) = outputs (fst (snd ?r1)))"
    if f: "outputs self = []"
  proof -
    have k0: "keys (outputs self) = []" using f by (simp add: keys_def)
    have a1: "adds_one_entry ''market_research'' self ?r1"
      by (rule outputs_grow_parts[THEN conjunct1, rule_format, OF k0])
    have a2: "adds_one_entry ''customer_analysis'' (fst (snd ?r1)) ?r2" if "fst ?r1 = None"
      by (rule outputs_grow_parts[THEN conjunct2, THEN conjunct1, rule_format])
         (use adds_one_entry_keys[OF a1 that] k0 in simp)
    have a3: "adds_one_entry ''strategy'' (fst (snd ?r2)) ?r3"
      if "fst ?r1 = None" "fst ?r2 = None"
      by (rule outputs_grow_parts[THEN conjunct2, THEN conjunct2, THEN conjunct1, rule_format])
         (use adds_one_entry_keys[OF a1 that(1)] adds_one_entry_keys[OF a2[OF that(1)] that(2)]
            k0 in simp)
    have a4: "adds_one_entry ''campaigns'' (fst (snd ?r3)) ?r4"
      if "fst ?r1 = None" "fst ?r2 = None" "fst ?r3 = None"
      by (rule outputs_grow_parts[THEN conjunct2, THEN conjunct2, THEN conjunct2,
            THEN conjunct1, rule_format])
         (use adds_one_entry_keys[OF a1 that(1)] adds_one_entry_keys[OF a2[OF that(1)] that(2)]
            adds_one_entry_keys[OF a3[OF that(1,2)] that(3)] k0 in simp)
    have a5: "adds_one_entry ''quality'' (fst (snd ?r4)) ?r5"
      if "fst ?r1 = None" "fst ?r2 = None" "fst ?r3 = None" "fst ?r4 = None"
      by (rule outputs_grow_parts[THEN conjunct2, THEN conjunct2, THEN conjunct2,
            THEN conjunct2, THEN conjunct1, rule_format])
         (use adds_one_entry_keys[OF a1 that(1)] adds_one_entry_keys[OF a2[OF that(1)] that(2)]
            adds_one_entry_keys[OF a3[OF that(1,2)] that(3)]
            adds_one_entry_keys[OF a4[OF that(1,2,3)] that(4)] k0 in simp)
    have fin: "outputs (fst (snd (run svc self w))) = outputs (fst (snd ?r5)) \<and>
            take 4 (outputs (fst (snd (run svc self w)))) = outputs (fst (snd ?r4)) \<and>
            take 3 (outputs (fst (snd (run svc self w)))) = outputs (fst (snd ?r3)) \<and>
            take 2 (outputs (fst (snd (run svc self w)))) = outputs (fst (snd ?r2)) \<and>
            take 1 (outputs (fst (snd (run svc self w)))) = outputs (fst (snd ?r1))"
      if n: "fst ?r1 = None" "fst ?r2 = None" "fst ?r3 = None" "fst ?r4 = None" "fst ?r5 = None"
    proof -
      have o: "outputs (fst (snd (run svc self w))) = outputs (fst (snd ?r5))"
        unfolding run_eq using n by simp
      note l1 = adds_one_entry_prefix[OF a1 n(1)]
        and l2 = adds_one_entry_prefix[OF a2[OF n(1)] n(2)]
        and l3 = adds_one_entry_prefix[OF a3[OF n(1,2)] n(3)]
        and l4 = adds_one_entry_prefix[OF a4[OF n(1,2,3)] n(4)]
        and l5 = adds_one_entry_prefix[OF a5[OF n(1,2,3,4)] n(5)]
      from l1 f have n1: "length (outputs (fst (snd ?r1))) = 1" by simp
      from l2 n1 have n2: "length (outputs (fst (snd ?r2))) = 2" by simp
      from l3 n2 have n3: "length (outputs (fst (snd ?r3))) = 3" by simp
      from l4 n3 have n4: "length (outputs (fst (snd ?r4))) = 4" by simp
      let ?d1 = "outputs (fst (snd ?r1))" and ?d2 = "outputs (fst (snd ?r2))"
        and ?d3 = "outputs (fst (snd ?r3))" and ?d4 = "outputs (fst (snd ?r4))"
        and ?d5 = "outputs (fst (snd ?r5))"
      have t4: "take 4 ?d5 = ?d4" using l5 n4 by simp
      have "take 3 ?d5 = take 3 (take 4 ?d5)" by simp
      also have "\<dots> = take 3 ?d4" by (simp only: t4)
      also have "\<dots> = ?d3" using l4 n3 by simp
      finally have t3: "take 3 ?d5 = ?d3" .
      have "take 2 ?d5 = take 2 (take 3 ?d5)" by simp
      also have "\<dots> = take 2 ?d3" by (simp only: t3)
      also have "\<dots> = ?d2" using l3 n2 by simp
      finally have t2: "take 2 ?d5 = ?d2" .
      have "take 1 ?d5 = take 1 (take 2 ?d5)" by simp
      also have "\<dots> = take 1 ?d2" by (simp only: t2)
      also have "\<dots> = ?d1" using l2 n1 by simp
      finally have t1: "take 1 ?d5 = ?d1" .
      from o t4 t3 t2 t1 show ?thesis by simp
    qed
    from a1 a2 a3 a4 a5 fin show ?thesis by blast
  qed
  have parts: "(keys (outputs self) = [] \<longrightarrow>
      adds_one_entry ''market_research'' self (phase_market_research svc self w)) \<and>
   (keys (outputs self) = [''market_research''] \<longrightarrow>
      adds_one_entry ''customer_analysis'' self (phase_customer_analysis svc self w)) \<and>
   (keys (outputs self) = [''market_research'', ''customer_analysis''] \<longrightarrow>
      adds_one_entry ''strategy'' self (phase_strategy svc self w)) \<and>
   (keys (outputs self) = [''market_research'', ''customer_analysis'', ''strategy''] \<longrightarrow>
      adds_one_entry ''campaigns'' self (phase_campaigns svc self w)) \<and>
   (keys (outputs self) =
      [''market_research'', ''customer_analysis'', ''strategy'', ''campaigns''] \<longrightarrow>
      adds_one_entry ''quality'' self (phase_quality svc self w)) \<and>
   (outputs self = [] \<longrightarrow>
      (\<exists>m o1 o2 o3 o4 o5. m \<le> 5 \<and> (fst (run svc self w) = None \<longleftrightarrow> m = 5) \<and>
         outputs (fst (snd (run svc self w))) =
           take m [(''market_research'', o1), (''customer_analysis'', o2), (''strategy'', o3),
                   (''campaigns'', o4), (''quality'', o5)]))"
    by (rule outputs_grow_parts)
  from parts run_eq chain show ?thesis
    by (simp only: Let_def) blast
qed

theorem outputs_grow_monotonically_witness:
  "keys (outputs widget) = [] \<and>
   adds_one_entry ''market_research'' widget
     (phase_market_research scripted_service widget (world0 five_answers)) \<and>
   keys (outputs (widget\<lparr>outputs := [(''market_research'', Some ''R1'')]\<rparr>)) =
     [''market_research''] \<and>
   adds_one_entry ''customer_analysis'' (widget\<lparr>outputs := [(''market_research'', Some ''R1'')]\<rparr>)
     (phase_customer_analysis scripted_service
        (widget\<lparr>outputs := [(''market_research'', Some ''R1'')]\<rparr>) (world0 five_answers)) \<and>
   fst (run scripted_service widget (world0 five_answers)) = None \<and>
   (\<exists>o1 o2 o3 o4 o5.
      outputs (fst (snd (run scripted_service widget (world0 five_answers)))) =
        [(''market_research'', o1), (''customer_analysis'', o2), (''strategy'', o3),
         (''campaigns'', o4), (''quality'', o5)]) \<and>
   fst (phase_market_research scripted_service widget
          (run_banner widget (world0 five_answers))) = None \<and>
   outputs (fst (snd (phase_market_research scripted_service widget
          (run_banner widget (world0 five_answers))))) =
     [(''market_research'', Some ''R1'')] \<and>
   outputs (fst (snd (phase_customer_analysis scripted_service
      (fst (snd (phase_market_research scripted_service widget
          (run_banner widget (world0 five_answers)))))
      (snd (snd (phase_market_research scripted_service widget
          (run_banner widget (world0 five_answers)))))))) =
     [(''market_research'', Some ''R1''), (''customer_analysis'', Some ''R2'')]"
proof -
  let ?w = "world0 five_answers"
  let ?r = "run scripted_service widget ?w"
  let ?s1 = "widget\<lparr>outputs := [(''market_research'', Some ''R1'')]\<rparr>"
  let ?r1 = "phase_market_research scripted_service widget (run_banner widget ?w)"
  let ?r2 = "phase_customer_analysis scripted_service (fst (snd ?r1)) (snd (snd ?r1))"
  let ?r3 = "phase_strategy scripted_service (fst (snd ?r2)) (snd (snd ?r2))"
  let ?r4 = "phase_campaigns scripted_service (fst (snd ?r3)) (snd (snd ?r3))"
  let ?r5 = "phase_quality scripted_service (fst (snd ?r4)) (snd (snd ?r4))"
  have ok: "fst ?r = None" by (rule widget_run_ok)
  have k0: "keys (outputs widget) = []" and f: "outputs widget = []"
    by (simp_all add: widget_def keys_def)
  have k1: "keys (outputs ?s1) = [''market_research'']" by (simp add: keys_def)
  note t = outputs_grow_monotonically[of widget scripted_service ?w]
  note t1 = outputs_grow_monotonically[of ?s1 scripted_service ?w]
  have a: "adds_one_entry ''market_research'' widget
     (phase_market_research scripted_service widget ?w)"
    by (rule t[THEN conjunct1, rule_format, OF k0])
  have b: "adds_one_entry ''customer_analysis'' ?s1
     (phase_customer_analysis scripted_service ?s1 ?w)"
    by (rule t1[THEN conjunct2, THEN conjunct1, rule_format, OF k1])
  from t[THEN conjunct2, THEN conjunct2, THEN conjunct2, THEN conjunct2, THEN conjunct2,
      THEN conjunct1, rule_format, OF f]
  obtain m o1 o2 o3 o4 o5 where
    m: "fst ?r = None \<longleftrightarrow> m = 5"
    and d: "outputs (fst (snd ?r)) =
           take m [(''market_research'', o1), (''customer_analysis'', o2), (''strategy'', o3),
                   (''campaigns'', o4), (''quality'', o5)]"
    by (elim exE conjE) (rule that)
  from m ok have "m = 5" by simp
  with d have "outputs (fst (snd ?r)) =
        [(''market_research'', o1), (''customer_analysis'', o2), (''strategy'', o3),
         (''campaigns'', o4), (''quality'', o5)]"
    by simp
  then have ex: "\<exists>o1 o2 o3 o4 o5. outputs (fst (snd ?r)) =
        [(''market_research'', o1), (''customer_analysis'', o2), (''strategy'', o3),
         (''campaigns'', o4), (''quality'', o5)]"
    by (intro exI)
  note eq = t[THEN conjunct2, THEN conjunct2, THEN conjunct2, THEN conjunct2, THEN conjunct2,
      THEN conjunct2, THEN conjunct1, unfolded Let_def]
  note ch = t[THEN conjunct2, THEN conjunct2, THEN conjunct2, THEN conjunct2, THEN conjunct2,
      THEN conjunct2, THEN conjunct2, rule_format, OF f, unfolded Let_def]
  have n1: "fst ?r1 = None"
  proof (rule ccontr)
    assume "fst ?r1 \<noteq> None"
    with eq have "?r = ?r1" by simp
    with ok \<open>fst ?r1 \<noteq> None\<close> show False by simp
  qed
  have n2: "fst ?r2 = None"
  proof (rule ccontr)
    assume "fst ?r2 \<noteq> None"
    with eq n1 have "?r = ?r2" by simp
    with ok \<open>fst ?r2 \<noteq> None\<close> show False by simp
  qed
  have n3: "fst ?r3 = None"
  proof (rule ccontr)
    assume "fst ?r3 \<noteq> None"
    with eq n1 n2 have "?r = ?r3" by simp
    with ok \<open>fst ?r3 \<noteq> None\<close> show False by simp
  qed
  have n4: "fst ?r4 = None"
  proof (rule ccontr)
    assume "fst ?r4 \<noteq> None"
    with eq n1 n2 n3 have "?r = ?r4" by simp
    with ok \<open>fst ?r4 \<noteq> None\<close> show False by simp
  qed
  have n5: "fst ?r5 = None"
  proof (rule ccontr)
    assume "fst ?r5 \<noteq> None"
    with eq n1 n2 n3 n4 have "?r = ?r5" by simp
    with ok \<open>fst ?r5 \<noteq> None\<close> show False by simp
  qed
  from ch n1 n2 n3 n4 n5
  have p: "take 2 (outputs (fst (snd ?r))) = outputs (fst (snd ?r2))"
    "take 1 (outputs (fst (snd ?r))) = outputs (fst (snd ?r1))"
    by blast+
  have o1: "outputs (fst (snd ?r1)) = [(''market_research'', Some ''R1'')]"
    unfolding p(2)[symmetric] widget_run_outputs by simp
  have o2: "outputs (fst (snd ?r2)) =
      [(''market_research'', Some ''R1''), (''customer_analysis'', Some ''R2'')]"
    unfolding p(1)[symmetric] widget_run_outputs by simp
  from ok k0 k1 a b ex n1 o1 o2 show ?thesis by (intro conjI)
qed

lemma outcome_triple [simp]: "outcome (e, self, w) = (e, self)"
  by (simp add: outcome_def)

lemma send_and_store_deterministic:
  assumes "fst (svc (service wa) req) = fst (svc (service wb) req)"
  shows "outcome (send_and_store svc key req self wa) = outcome (send_and_store svc key req self wb)"
proof -
  obtain ra sa where a: "svc (service wa) req = (ra, sa)" by (cases "svc (service wa) req")
  obtain rb sb where b: "svc (service wb) req = (rb, sb)" by (cases "svc (service wb) req")
  from assms a b have "ra = rb" by simp
  then show ?thesis
    by (simp add: send_and_store_def a b split: sum.splits list.splits)
qed

lemma andthen_outcome:
  assumes "outcome ra = outcome rb"
    and "\<And>s x y. outcome (f s x) = outcome (g s y)"
  shows "outcome (andthen ra f) = outcome (andthen rb g)"
proof -
  obtain ea sa xa where a: "ra = (ea, sa, xa)" using prod_cases3 by blast
  obtain eb sb xb where b: "rb = (eb, sb, xb)" using prod_cases3 by blast
  from assms(1) have "ea = eb" "sa = sb" by (simp_all add: a b)
  then show ?thesis
    unfolding a b by (cases eb) (simp_all add: assms(2))
qed

lemma phases_deterministic:
  assumes det: "\<And>s s' req. fst (svc s req) = fst (svc s' req)"
  shows "outcome (phase_market_research svc self wa) = outcome (phase_market_research svc self wb)"
    and "outcome (phase_customer_analysis svc self wa) = outcome (phase_customer_analysis svc self wb)"
    and "outcome (phase_strategy svc self wa) = outcome (phase_strategy svc self wb)"
    and "outcome (phase_campaigns svc self wa) = outcome (phase_campaigns svc self wb)"
    and "outcome (phase_quality svc self wa) = outcome (phase_quality svc self wb)"
proof -
  have sd: "outcome (send_and_store svc key req s xa) = outcome (send_and_store svc key req s xb)"
    for key req s and xa xb :: "'a world"
    by (rule send_and_store_deterministic) (rule det)
  show "outcome (phase_market_research svc self wa) = outcome (phase_market_research svc self wb)"
    unfolding phase_market_research_eq by (rule sd)
  show "outcome (phase_customer_analysis svc self wa) = outcome (phase_customer_analysis svc self wb)"
    unfolding phase_customer_analysis_eq by (auto split: sum.splits intro: sd)
  show "outcome (phase_strategy svc self wa) = outcome (phase_strategy svc self wb)"
    unfolding phase_strategy_eq by (auto split: sum.splits intro: sd)
  show "outcome (phase_campaigns svc self wa) = outcome (phase_campaigns svc self wb)"
    unfolding phase_campaigns_eq by (auto split: sum.splits intro: sd)
  show "outcome (phase_quality svc self wa) = outcome (phase_quality svc self wb)"
    unfolding phase_quality_eq by (auto split: sum.splits intro: sd)
qed

lemma run_deterministic:
  assumes det: "\<And>s s' req. fst (svc s req) = fst (svc s' req)"
  shows "outcome (run svc self wa) = outcome (run svc self wb)"
proof -
  note pd = phases_deterministic[of svc, OF det]
  show ?thesis
    unfolding run_andthen
    by (intro andthen_outcome pd) simp
qed

lemma pbind_simps [simp]: "pbind (Some e, s) f = (Some e, s)" "pbind (None, s) f = f s"
  by (simp_all add: pbind_def)

lemma send_and_store_outcome:
  assumes "fst (svc (service w) req) = a"
  shows "outcome (send_and_store svc key req self w) = store a key self"
  using assms
  by (cases "svc (service w) req")
     (simp add: send_and_store_def store_def split: sum.splits list.splits)

lemma andthen_pbind:
  assumes "outcome r = q" and "\<And>s x. outcome (f s x) = g s"
  shows "outcome (andthen r f) = pbind q g"
proof -
  obtain e s x where r: "r = (e, s, x)" using prod_cases3 by blast
  with assms(1) have q: "q = (e, s)" by simp
  show ?thesis unfolding r q by (cases e) (simp_all add: assms(2))
qed

lemma run_pure:
  assumes det: "\<And>s s' req. fst (svc s req) = fst (svc s' req)"
  shows "outcome (run svc self w) = pure_run (\<lambda>req. fst (svc s0 req)) self"
proof -
  have sd: "outcome (send_and_store svc key req s x) = store (fst (svc s0 req)) key s"
    for key req s and x :: "'a world"
    by (rule send_and_store_outcome) (rule det)
  show ?thesis
    unfolding run_andthen pure_run_def
    apply (intro andthen_pbind)
    apply (simp_all add: phase_market_research_eq phase_customer_analysis_eq phase_strategy_eq
        phase_campaigns_eq phase_quality_eq sd split: sum.splits)
    done
qed

lemma pure_run_idem:
  assumes "pure_run F self = (e, self')"
  shows "pure_run F self' = (e, self')"
proof -
  show ?thesis
  proof (cases "F (mk_request (model self) 0.7 500 (market_research_system_prompt (product_name self)) market_research_user_prompt)")
    case a1: (Inl e1)
    from assms have r: "e = Some e1" "self' = self"
      by (simp_all add: pure_run_def store_def gs a1)
    show ?thesis
      unfolding r by (simp add: pure_run_def store_def gs setitem_same_value a1)
  next
    case a1: (Inr resp1)
    show ?thesis
    proof (cases "choices resp1")
      case b1: Nil
      from assms have r: "e = Some IndexError" "self' = self"
        by (simp_all add: pure_run_def store_def gs a1 b1)
      show ?thesis
        unfolding r by (simp add: pure_run_def store_def gs setitem_same_value a1 b1)
    next
      case b1: (Cons c1 cs1)
      show ?thesis
      proof (cases "F (mk_request (model self) 0.7 400 customer_analysis_system_prompt (customer_analysis_user_prompt c1))")
        case a2: (Inl e2)
        from assms have r: "e = Some e2" "self' = self\<lparr>outputs := setitem (outputs self) ''market_research'' c1\<rparr>"
          by (simp_all add: pure_run_def store_def gs a1 b1 a2)
        show ?thesis
          unfolding r by (simp add: pure_run_def store_def gs setitem_same_value a1 b1 a2)
      next
        case a2: (Inr resp2)
        show ?thesis
        proof (cases "choices resp2")
          case b2: Nil
          from assms have r: "e = Some IndexError" "self' = self\<lparr>outputs := setitem (outputs self) ''market_research'' c1\<rparr>"
            by (simp_all add: pure_run_def store_def gs a1 b1 a2 b2)
          show ?thesis
            unfolding r by (simp add: pure_run_def store_def gs setitem_same_value a1 b1 a2 b2)
        next
          case b2: (Cons c2 cs2)
          show ?thesis
          proof (cases "F (mk_request (model self) 0.7 500 (strategy_system_prompt (product_name self)) (strategy_user_prompt c1 c2))")
            case a3: (Inl e3)
            from assms have r: "e = Some e3" "self' = self\<lparr>outputs := setitem (setitem (outputs self) ''market_research'' c1) ''customer_analysis'' c2\<rparr>"
              by (simp_all add: pure_run_def store_def gs a1 b1 a2 b2 a3)
            show ?thesis
              unfolding r by (simp add: pure_run_def store_def gs setitem_same_value a1 b1 a2 b2 a3)
          next
            case a3: (Inr resp3)
            show ?thesis
            proof (cases "choices resp3")
              case b3: Nil
              from assms have r: "e = Some IndexError" "self' = self\<lparr>outputs := setitem (setitem (outputs self) ''market_research'' c1) ''customer_analysis'' c2\<rparr>"
                by (simp_all add: pure_run_def store_def gs a1 b1 a2 b2 a3 b3)
              show ?thesis
                unfolding r by (simp add: pure_run_def store_def gs setitem_same_value a1 b1 a2 b2 a3 b3)
            next
              case b3: (Cons c3 cs3)
              show ?thesis
              proof (cases "F (mk_request (model self) 0.7 500 campaigns_system_prompt (campaigns_user_prompt c3))")
                case a4: (Inl e4)
                from assms have r: "e = Some e4" "self' = self\<lparr>outputs := setitem (setitem (setitem (outputs self) ''market_research'' c1) ''customer_analysis'' c2) ''strategy'' c3\<rparr>"
                  by (simp_all add: pure_run_def store_def gs a1 b1 a2 b2 a3 b3 a4)
                show ?thesis
                  unfolding r by (simp add: pure_run_def store_def gs setitem_same_value a1 b1 a2 b2 a3 b3 a4)
              next
                case a4: (Inr resp4)
                show ?thesis
                proof (cases "choices resp4")
                  case b4: Nil
                  from assms have r: "e = Some IndexError" "self' = self\<lparr>outputs := setitem (setitem (setitem (outputs self) ''market_research'' c1) ''customer_analysis'' c2) ''strategy'' c3\<rparr>"
                    by (simp_all add: pure_run_def store_def gs a1 b1 a2 b2 a3 b3 a4 b4)
                  show ?thesis
                    unfolding r by (simp add: pure_run_def store_def gs setitem_same_value a1 b1 a2 b2 a3 b3 a4 b4)
                next
                  case b4: (Cons c4 cs4)
                  show ?thesis
                  proof (cases "F (mk_request (model self) (1/2) 500 quality_system_prompt (quality_user_prompt c1 c2 c3 c4))")
                    case a5: (Inl e5)
                    from assms have r: "e = Some e5" "self' = self\<lparr>outputs := setitem (setitem (setitem (setitem (outputs self) ''market_research'' c1) ''customer_analysis'' c2) ''strategy'' c3) ''campaigns'' c4\<rparr>"
                      by (simp_all add: pure_run_def store_def gs a1 b1 a2 b2 a3 b3 a4 b4 a5)
                    show ?thesis
                      unfolding r by (simp add: pure_run_def store_def gs setitem_same_value a1 b1 a2 b2 a3 b3 a4 b4 a5)
                  next
                    case a5: (Inr resp5)
                    show ?thesis
                    proof (cases "choices resp5")
                      case b5: Nil
                      from assms have r: "e = Some IndexError" "self' = self\<lparr>outputs := setitem (setitem (setitem (setitem (outputs self) ''market_research'' c1) ''customer_analysis'' c2) ''strategy'' c3) ''campaigns'' c4\<rparr>"
                        by (simp_all add: pure_run_def store_def gs a1 b1 a2 b2 a3 b3 a4 b4 a5 b5)
                      show ?thesis
                        unfolding r by (simp add: pure_run_def store_def gs setitem_same_value a1 b1 a2 b2 a3 b3 a4 b4 a5 b5)
                    next
                      case b5: (Cons c5 cs5)
                      from assms have r: "e = None" "self' = self\<lparr>outputs := setitem (setitem (setitem (setitem (setitem (outputs self) ''market_research'' c1) ''customer_analysis'' c2) ''strategy'' c3) ''campaigns'' c4) ''quality'' c5\<rparr>"
                        by (simp_all add: pure_run_def store_def gs a1 b1 a2 b2 a3 b3 a4 b4 a5 b5)
                      show ?thesis
                        unfolding r by (simp add: pure_run_def store_def gs setitem_same_value a1 b1 a2 b2 a3 b3 a4 b4 a5 b5)
                    qed
                  qed
                qed
              qed
            qed
          qed
        qed
      qed
    qed
  qed
qed

text \<open>
  Claim C8. Let the service be deterministic: its answer to a request (text or error) does not
  depend on its internal state. Then two executions of the pipeline with the same
  configuration and the same product name, in whatever two worlds (service state, requests
  already received, output already printed, clock), end the same way and leave equal objects,
  hence identical dictionaries of outputs; the same holds for two runs started on equal
  objects. Calling \<^verbatim>\<open>run\<close> a second time on the object the first call left behind ends the same
  way too and leaves the object, hence its dictionary, as the first call left it.
\<close>

theorem deterministic_service_gives_identical_outputs:
  assumes det: "\<And>s s' req. fst (svc s req) = fst (svc s' req)"
  shows "fst (workflow_main Config svc arg wa) = fst (workflow_main Config svc arg wb) \<and>
         fst (snd (workflow_main Config svc arg wa)) = fst (snd (workflow_main Config svc arg wb)) \<and>
         map_option outputs (fst (snd (workflow_main Config svc arg wa))) =
           map_option outputs (fst (snd (workflow_main Config svc arg wb))) \<and>
         fst (run svc self wa) = fst (run svc self wb) \<and>
         outputs (fst (snd (run svc self wa))) = outputs (fst (snd (run svc self wb))) \<and>
         fst (run svc (fst (snd (run svc self wa))) wb) = fst (run svc self wa) \<and>
         outputs (fst (snd (run svc (fst (snd (run svc self wa))) wb))) =
           outputs (fst (snd (run svc self wa)))"
proof -
  let ?F = "\<lambda>req. fst (svc (service wa) req)"
  let ?e = "fst (run svc self wa)" and ?s = "fst (snd (run svc self wa))"
  have "pure_run ?F self = (?e, ?s)"
    using run_pure[of svc self wa "service wa", OF det] by (simp add: outcome_def)
  from pure_run_idem[OF this] have "outcome (run svc ?s wb) = (?e, ?s)"
    using run_pure[of svc ?s wb "service wa", OF det] by simp
  then have again: "fst (run svc ?s wb) = ?e" "fst (snd (run svc ?s wb)) = ?s"
    by (simp_all add: outcome_def)
  have r: "fst (run svc s xa) = fst (run svc s xb) \<and>
           fst (snd (run svc s xa)) = fst (snd (run svc s xb))" for s and xa xb :: "'a world"
    using run_deterministic[of svc s xa xb, OF det] by (simp add: outcome_def)
  have m: "fst (workflow_main Config svc arg wa) = fst (workflow_main Config svc arg wb) \<and>
         fst (snd (workflow_main Config svc arg wa)) = fst (snd (workflow_main Config svc arg wb))"
  proof (cases "validate_setup Config")
    case True
    let ?self = "\<lparr>client = (API_KEY Config, API_BASE Config), outputs = [],
           model = OPENAI_MODEL Config,
           product_name = (case arg of None \<Rightarrow> ''SmartHealth Fitness Band'' | Some p \<Rightarrow> p)\<rparr>"
    have "workflow_main Config svc arg x =
        (fst (run svc ?self x), Some (fst (snd (run svc ?self x))), snd (snd (run svc ?self x)))"
      for x :: "'a world"
      by (simp add: workflow_main_def init_ok[OF True] split: prod.splits)
    then show ?thesis using r[of ?self wa wb] by simp
  next
    case False
    then show ?thesis by (simp add: workflow_main_def init_def)
  qed
  from m r[of self wa wb] again show ?thesis by simp
qed

theorem deterministic_service_gives_identical_outputs_witness:
  "(\<forall>s s' req. fst (digest_service s req) = fst (digest_service s' req)) \<and>
   fst (workflow_main config_ok digest_service (Some ''Widget X'') (world0 0)) =
     fst (workflow_main config_ok digest_service (Some ''Widget X'')
            ((world0 7)\<lparr>now := ''2025-06-30 18:30:00.000000''\<rparr>)) \<and>
   map_option outputs
     (fst (snd (workflow_main config_ok digest_service (Some ''Widget X'') (world0 0)))) =
   map_option outputs
     (fst (snd (workflow_main config_ok digest_service (Some ''Widget X'')
            ((world0 7)\<lparr>now := ''2025-06-30 18:30:00.000000''\<rparr>))))"
proof -
  have d: "fst (digest_service s req) = fst (digest_service s' req)" for s s' req
    by (simp add: digest_service_def)
  from deterministic_service_gives_identical_outputs[of digest_service config_ok
      "Some ''Widget X''" "world0 0" "(world0 7)\<lparr>now := ''2025-06-30 18:30:00.000000''\<rparr>" widget,
      OF d]
  show ?thesis using d by (intro conjI allI) (elim conjE, assumption)+
qed

end
